theory Spec2Isabelle
  imports Complex_Main "HOL-Library.Sublist" "HOL-Library.AList"
begin

section \<open>Parsed pages and fetch results\<close>

text \<open>
  The extractors of \<^verbatim>\<open>get_nirspec_mos_info.py\<close> only query the parse tree:
  \<^verbatim>\<open>soup.find_all('table')\<close>, \<^verbatim>\<open>table.find_all('tr')\<close>, \<^verbatim>\<open>row.find_all('th')\<close>,
  \<^verbatim>\<open>row.find_all('td')\<close>, \<^verbatim>\<open>cell.get_text(strip=True)\<close> and \<^verbatim>\<open>cell.find('img')\<close>.
  A page is modelled by the answers to these queries: a cell by its text nodes in
  document order and by whether it holds an image element, a row by its heading cells
  and its data cells, a table by its rows, a page by its tables and by its section
  title elements (\<^verbatim>\<open>span.accordion__title-text\<close>). Characters are code points below 256.
\<close>

record cell =
  strings :: "string list"
  has_img :: bool

record row =
  ths :: "cell list"
  tds :: "cell list"

type_synonym table = "row list"

record page =
  tables :: "table list"
  titles :: "cell list"

text \<open>Exceptions are values: the two transport errors the retry loop catches, the
  error of \<^verbatim>\<open>raise_for_status\<close>, and the errors of list and column lookups.\<close>

datatype exn = ConnectionError | Timeout | HTTPError | ValueError | IndexError | KeyError

record response =
  status_ok :: bool
  content :: page

section \<open>Strings and lists as Python has them\<close>

text \<open>\<^verbatim>\<open>str.strip()\<close> removes leading and trailing whitespace (\<^verbatim>\<open>str.isspace\<close>).\<close>

definition is_space :: "char \<Rightarrow> bool" where
  "is_space c = (c \<in> set [CHR 0x09, CHR 0x0A, CHR 0x0B, CHR 0x0C, CHR 0x0D, CHR 0x1C,
                           CHR 0x1D, CHR 0x1E, CHR 0x1F, CHR 0x20, CHR 0x85, CHR 0xA0])"

definition strip :: "string \<Rightarrow> string" where
  "strip s = rev (dropWhile is_space (rev (dropWhile is_space s)))"

text \<open>\<^verbatim>\<open>get_text(strip=True)\<close>: every text node stripped, the empty ones dropped,
  the rest joined with the empty separator.\<close>

definition get_text :: "cell \<Rightarrow> string" where
  "get_text c = concat (filter (\<lambda>s. s \<noteq> []) (map strip (strings c)))"

text \<open>\<^verbatim>\<open>s.replace(c, '')\<close> for a single character \<open>c\<close>.\<close>

definition remove_char :: "char \<Rightarrow> string \<Rightarrow> string" where
  "remove_char c s = filter (\<lambda>x. x \<noteq> c) s"

definition remove_blanks :: "string \<Rightarrow> string" where
  "remove_blanks s = remove_char (CHR 0x20) (remove_char (CHR 0x0D) (remove_char (CHR 0x0A) s))"

text \<open>\<^verbatim>\<open>sub in s\<close> on strings.\<close>

fun str_in :: "string \<Rightarrow> string \<Rightarrow> bool" where
  "str_in sub [] = (sub = [])"
| "str_in sub (c # cs) = (prefix sub (c # cs) \<or> str_in sub cs)"

text \<open>\<^verbatim>\<open>xs.index(x)\<close>: the first position of \<open>x\<close>, ValueError when there is none.
  \<open>first_index\<close> is the position itself and is used directly where the source has
  tested \<^verbatim>\<open>x in xs\<close> before.\<close>

fun first_index :: "'a list \<Rightarrow> 'a \<Rightarrow> nat" where
  "first_index [] x = 0"
| "first_index (y # ys) x = (if y = x then 0 else Suc (first_index ys x))"

definition py_index :: "'a list \<Rightarrow> 'a \<Rightarrow> exn + nat" where
  "py_index xs x = (if x \<in> set xs then Inr (first_index xs x) else Inl ValueError)"

text \<open>\<^verbatim>\<open>dict(pairs)\<close>: keys in order of first insertion, the last value of a key wins.\<close>

type_synonym status_record = "(string \<times> string) list"

definition dict :: "(string \<times> string) list \<Rightarrow> status_record" where
  "dict kvs = foldl (\<lambda>d (k, v). AList.update k v d) [] kvs"

section \<open>extract_basic_info_from_GO\<close>

text \<open>The column whose cell is tested: the source looks \<^verbatim>\<open>Instrument/Mode\<close> up
  whenever \<^verbatim>\<open>Instrument/ Mode\<close> is not a header, without testing that it is one.\<close>

definition GO_instrument_index :: "string list \<Rightarrow> exn + nat" where
  "GO_instrument_index headers =
     (if ''Instrument/ Mode'' \<notin> set headers then py_index headers ''Instrument/Mode''
      else py_index headers ''Instrument/ Mode'')"

text \<open>The loop over \<^verbatim>\<open>rows[1:]\<close>; \<open>data\<close> is the list the source appends to.\<close>

fun GO_rows :: "string list \<Rightarrow> string \<Rightarrow> string \<Rightarrow> row list \<Rightarrow> string list list
                  \<Rightarrow> exn + string list list" where
  "GO_rows headers topic_text cycle_number [] data = Inr data"
| "GO_rows headers topic_text cycle_number (r # rows) data =
     (if length (tds r) \<noteq> length headers
      then GO_rows headers topic_text cycle_number rows data
      else (case GO_instrument_index headers of
              Inl e \<Rightarrow> Inl e
            | Inr i \<Rightarrow>
                if str_in ''NIRSpec/MOS'' (remove_blanks (get_text (tds r ! i)))
                then GO_rows headers topic_text cycle_number rows
                       (data @ [map get_text (tds r) @ [topic_text, cycle_number]])
                else GO_rows headers topic_text cycle_number rows data))"

text \<open>The loop over \<^verbatim>\<open>zip(topics, tables)\<close>; \<open>headers\<close> is \<open>None\<close> until the first
  table with rows sets it.\<close>

fun GO_tables :: "(cell \<times> table) list \<Rightarrow> string \<Rightarrow> string list list \<Rightarrow> string list option
                    \<Rightarrow> exn + (string list list \<times> string list option)" where
  "GO_tables [] cycle_number data headers = Inr (data, headers)"
| "GO_tables ((topic, []) # rest) cycle_number data headers =
     GO_tables rest cycle_number data headers"
| "GO_tables ((topic, r0 # rows) # rest) cycle_number data headers =
     (let current_headers = map get_text (ths r0);
          headers' = (case headers of None \<Rightarrow> current_headers | Some h \<Rightarrow> h)
      in case GO_rows headers' (get_text topic) cycle_number rows data of
           Inl e \<Rightarrow> Inl e
         | Inr data' \<Rightarrow> GO_tables rest cycle_number data' (Some headers'))"

definition extract_basic_info_from_GO ::
  "(string \<Rightarrow> exn + response) \<Rightarrow> string \<Rightarrow> string
     \<Rightarrow> exn + (string list list \<times> string list option)" where
  "extract_basic_info_from_GO requests_get url cycle_number =
     (case requests_get url of
        Inl e \<Rightarrow> Inl e
      | Inr response \<Rightarrow>
          if \<not> status_ok response then Inl HTTPError
          else GO_tables (zip (titles (content response)) (tables (content response)))
                 cycle_number [] None)"

section \<open>extract_basic_info_from_GTO\<close>

text \<open>The row a matching GTO row emits: the stripped cell texts, with the marker at
  the first \<^verbatim>\<open>AR?\<close> column when that cell holds an image.\<close>

definition GTO_row_data :: "string list \<Rightarrow> cell list \<Rightarrow> string list" where
  "GTO_row_data headers columns =
     (if ''AR?'' \<in> set headers \<and> has_img (columns ! first_index headers ''AR?'')
      then (map get_text columns)[first_index headers ''AR?'' := ''AR'']
      else map get_text columns)"

text \<open>The column whose cell is tested, by the \<^verbatim>\<open>if\<close> / \<^verbatim>\<open>elif\<close> / \<^verbatim>\<open>else\<close> of the
  source; \<open>None\<close> is the branch that skips the row.\<close>

definition GTO_instrument_index :: "string list \<Rightarrow> nat option" where
  "GTO_instrument_index headers =
     (if ''Instrument/Mode'' \<in> set headers then Some (first_index headers ''Instrument/Mode'')
      else if ''Instrument/ Mode'' \<in> set headers
      then Some (first_index headers ''Instrument/ Mode'')
      else None)"

fun GTO_rows :: "string list \<Rightarrow> row list \<Rightarrow> string list list \<Rightarrow> string list list" where
  "GTO_rows headers [] data = data"
| "GTO_rows headers (r # rows) data =
     (if length (tds r) \<noteq> length headers then GTO_rows headers rows data
      else (case GTO_instrument_index headers of
              None \<Rightarrow> GTO_rows headers rows data
            | Some i \<Rightarrow>
                if str_in ''NIRSpec/MOS'' (get_text (tds r ! i))
                then GTO_rows headers rows (data @ [GTO_row_data headers (tds r)])
                else GTO_rows headers rows data))"

fun GTO_tables :: "table list \<Rightarrow> string list list \<Rightarrow> string list option
                     \<Rightarrow> string list list \<times> string list option" where
  "GTO_tables [] data headers = (data, headers)"
| "GTO_tables ([] # rest) data headers = GTO_tables rest data headers"
| "GTO_tables ((r0 # rows) # rest) data headers =
     (let current_headers = map get_text (ths r0);
          headers' = (case headers of None \<Rightarrow> current_headers | Some h \<Rightarrow> h)
      in GTO_tables rest (GTO_rows headers' rows data) (Some headers'))"

definition extract_basic_info_from_GTO ::
  "(string \<Rightarrow> exn + response) \<Rightarrow> string \<Rightarrow> exn + (string list list \<times> string list option)" where
  "extract_basic_info_from_GTO requests_get url =
     (case requests_get url of
        Inl e \<Rightarrow> Inl e
      | Inr response \<Rightarrow>
          if \<not> status_ok response then Inl HTTPError
          else Inr (GTO_tables (tables (content response)) [] None))"

section \<open>extract_basic_info_from_DDT\<close>

text \<open>The DDT pages name the column \<^verbatim>\<open>Instruments\<close>; \<open>None\<close> is the branch that skips
  the row.\<close>

definition DDT_instrument_index :: "string list \<Rightarrow> nat option" where
  "DDT_instrument_index headers =
     (if ''Instruments'' \<in> set headers then Some (first_index headers ''Instruments'')
      else None)"

fun DDT_rows :: "string list \<Rightarrow> row list \<Rightarrow> string list list \<Rightarrow> string list list" where
  "DDT_rows headers [] data = data"
| "DDT_rows headers (r # rows) data =
     (if length (tds r) \<noteq> length headers then DDT_rows headers rows data
      else (case DDT_instrument_index headers of
              None \<Rightarrow> DDT_rows headers rows data
            | Some i \<Rightarrow>
                if str_in ''NIRSpec'' (get_text (tds r ! i))
                then DDT_rows headers rows (data @ [map get_text (tds r)])
                else DDT_rows headers rows data))"

fun DDT_tables :: "table list \<Rightarrow> string list list \<Rightarrow> string list option
                     \<Rightarrow> string list list \<times> string list option" where
  "DDT_tables [] data headers = (data, headers)"
| "DDT_tables ([] # rest) data headers = DDT_tables rest data headers"
| "DDT_tables ((r0 # rows) # rest) data headers =
     (let current_headers = map get_text (ths r0);
          headers' = (case headers of None \<Rightarrow> current_headers | Some h \<Rightarrow> h)
      in DDT_tables rest (DDT_rows headers' rows data) (Some headers'))"

definition extract_basic_info_from_DDT ::
  "(string \<Rightarrow> exn + response) \<Rightarrow> string \<Rightarrow> exn + (string list list \<times> string list option)" where
  "extract_basic_info_from_DDT requests_get url =
     (case requests_get url of
        Inl e \<Rightarrow> Inl e
      | Inr response \<Rightarrow>
          if \<not> status_ok response then Inl HTTPError
          else Inr (DDT_tables (tables (content response)) [] None))"

section \<open>get_observation_status\<close>

definition status_url :: "string \<Rightarrow> string" where
  "status_url proposal_id =
     ''https://www.stsci.edu/cgi-bin/get-visit-status?id='' @ proposal_id @
     ''&markupFormat=html&observatory=JWST&pi=1''"

definition template_index_of :: "string list \<Rightarrow> int" where
  "template_index_of headers =
     (if ''Template'' \<in> set headers then int (first_index headers ''Template'') else - 1)"

fun status_rows :: "string list \<Rightarrow> int \<Rightarrow> row list \<Rightarrow> status_record list
                      \<Rightarrow> status_record list" where
  "status_rows headers template_index [] all_status_data = all_status_data"
| "status_rows headers template_index (r # rows) all_status_data =
     (if length (tds r) \<noteq> length headers
      then status_rows headers template_index rows all_status_data
      else if template_index \<noteq> - 1 \<and>
              str_in ''NIRSpec MultiObject Spectroscopy''
                (map get_text (tds r) ! nat template_index)
      then status_rows headers template_index rows
             (all_status_data @ [dict (zip headers (map get_text (tds r)))])
      else status_rows headers template_index rows all_status_data)"

text \<open>The loop over the tables of the status page. \<^verbatim>\<open>rows[0]\<close> raises IndexError on a
  table without rows; the header row is read from its \<^verbatim>\<open>td\<close> cells; the list
  comprehension that filters the new headers is evaluated against \<open>all_headers\<close> as it
  is before \<^verbatim>\<open>extend\<close>.\<close>

fun status_tables :: "table list \<Rightarrow> status_record list \<Rightarrow> string list
                        \<Rightarrow> exn + (status_record list \<times> string list)" where
  "status_tables [] all_status_data all_headers = Inr (all_status_data, all_headers)"
| "status_tables ([] # rest) all_status_data all_headers = Inl IndexError"
| "status_tables ((r0 # rows) # rest) all_status_data all_headers =
     (let headers = map get_text (tds r0) in
      if headers \<noteq> []
      then status_tables rest
             (status_rows headers (template_index_of headers) rows all_status_data)
             (all_headers @ filter (\<lambda>header. header \<notin> set all_headers) headers)
      else status_tables rest all_status_data all_headers)"

definition status_extract :: "page \<Rightarrow> exn + (status_record list \<times> string list)" where
  "status_extract soup =
     (if tables soup = [] then Inr ([], []) else status_tables (tables soup) [] [])"

text \<open>The body of the \<^verbatim>\<open>try\<close> block at the \<open>n\<close>-th call of \<^verbatim>\<open>session.get\<close>. The
  session is a function from the URL and the number of earlier calls to what the call
  does.\<close>

definition status_try :: "(string \<Rightarrow> nat \<Rightarrow> exn + response) \<Rightarrow> string \<Rightarrow> nat
                            \<Rightarrow> exn + (status_record list \<times> string list)" where
  "status_try session_get url n =
     (case session_get url n of
        Inl e \<Rightarrow> Inl e
      | Inr response \<Rightarrow>
          if \<not> status_ok response then Inl HTTPError else status_extract (content response))"

text \<open>The \<^verbatim>\<open>while attempt < retries\<close> loop. The second component of the result counts
  the calls of \<^verbatim>\<open>session.get\<close>. The pause of \<^verbatim>\<open>time.sleep(5)\<close> and the printed lines
  are not part of the model.\<close>

function status_loop :: "(string \<Rightarrow> nat \<Rightarrow> exn + response) \<Rightarrow> string \<Rightarrow> int \<Rightarrow> int \<Rightarrow> nat
                           \<Rightarrow> (exn + (status_record list \<times> string list)) \<times> nat" where
  "status_loop session_get url retries attempt calls =
     (if attempt < retries then
        (case status_try session_get url calls of
           Inl e \<Rightarrow>
             if e = ConnectionError \<or> e = Timeout
             then status_loop session_get url retries (attempt + 1) (Suc calls)
             else (Inl e, Suc calls)
         | Inr result \<Rightarrow> (Inr result, Suc calls))
      else (Inr ([], []), calls))"
  by pat_completeness auto
termination
  by (relation "measure (\<lambda>(session_get, url, retries, attempt, calls). nat (retries - attempt))")
     auto

declare status_loop.simps [simp del]

definition get_observation_status ::
  "(string \<Rightarrow> nat \<Rightarrow> exn + response) \<Rightarrow> string \<Rightarrow> int
     \<Rightarrow> (exn + (status_record list \<times> string list)) \<times> nat" where
  "get_observation_status session_get proposal_id retries =
     status_loop session_get (status_url proposal_id) retries 0 0"

section \<open>check_csv\<close>

text \<open>
  \<^verbatim>\<open>pd.read_csv\<close> is a parameter: a function from the file name to the frame it
  parses, or to the exception it raises. A frame is its columns by name, and
  \<^verbatim>\<open>df['ID']\<close> raises KeyError when there is no such column. \<^verbatim>\<open>tolist()\<close> gives a
  list of Python objects: an \<^verbatim>\<open>int\<close> for a cell of an integer column, a \<^verbatim>\<open>float\<close>
  (finite, infinite or NaN) for a cell of a float column, a \<^verbatim>\<open>bool\<close>, or a \<^verbatim>\<open>str\<close>
  for a cell of an object column; an empty cell is NaN. A finite float is the rational
  number it stands for. \<open>PyNaN\<close> carries the identity of its object: NaN is not equal
  to itself, so two NaN are one element of a set only when they are one object.
\<close>

datatype py_value =
    PyInt int
  | PyFloat rat
  | PyInf bool
  | PyBool bool
  | PyStr string
  | PyNaN nat

text \<open>A Python set takes \<open>x\<close> and \<open>y\<close> for the same element when
  \<^verbatim>\<open>x is y or x == y\<close>: numbers of any type by their numeric value (\<^verbatim>\<open>1 == 1.0\<close>,
  \<^verbatim>\<open>True == 1\<close>), strings by their text, a number and a string never, a NaN only with
  itself. \<open>py_key\<close> is what that comparison looks at.\<close>

datatype element_key = Number rat | Infinite bool | Text string | Object nat

fun py_key :: "py_value \<Rightarrow> element_key" where
  "py_key (PyInt i) = Number (of_int i)"
| "py_key (PyFloat q) = Number q"
| "py_key (PyInf positive) = Infinite positive"
| "py_key (PyBool b) = Number (if b then 1 else 0)"
| "py_key (PyStr s) = Text s"
| "py_key (PyNaN obj) = Object obj"

definition py_same :: "py_value \<Rightarrow> py_value \<Rightarrow> bool" where
  "py_same x y = (py_key x = py_key y)"

text \<open>A set is the list of its elements. \<^verbatim>\<open>x in s\<close>, \<^verbatim>\<open>set(xs)\<close> (an element is added
  unless the set holds it already), \<^verbatim>\<open>s.issubset(t)\<close> and \<^verbatim>\<open>s - t\<close>. The order in
  which Python prints a set is not modelled.\<close>

definition py_in :: "py_value \<Rightarrow> py_value list \<Rightarrow> bool" where
  "py_in x s = list_ex (py_same x) s"









section \<open>Notions the statements use\<close>

text \<open>The header list an extractor keeps: the heading texts of the first table that
  has rows (\<open>headers\<close> is set only once).\<close>

fun first_headers :: "table list \<Rightarrow> string list option" where
  "first_headers [] = None"
| "first_headers ([] # rest) = first_headers rest"
| "first_headers ((r0 # rows) # rest) = Some (map get_text (ths r0))"

definition effective_headers :: "string list option \<Rightarrow> table list \<Rightarrow> string list option" where
  "effective_headers headers tabs =
     (case headers of None \<Rightarrow> first_headers tabs | Some h \<Rightarrow> Some h)"

text \<open>The rows a row loop keeps under the header list \<open>hs\<close>, and what GO emits for one.\<close>

definition GO_selects :: "string list \<Rightarrow> nat \<Rightarrow> row \<Rightarrow> bool" where
  "GO_selects hs i r =
     (length (tds r) = length hs \<and>
      str_in ''NIRSpec/MOS'' (remove_blanks (get_text (tds r ! i))))"

definition GO_row_data :: "string \<Rightarrow> string \<Rightarrow> row \<Rightarrow> string list" where
  "GO_row_data topic_text cycle_number r = map get_text (tds r) @ [topic_text, cycle_number]"

definition GO_emitted ::
  "string list \<Rightarrow> nat \<Rightarrow> string \<Rightarrow> (cell \<times> table) list \<Rightarrow> string list list" where
  "GO_emitted hs i cycle_number pairs =
     concat (map (\<lambda>(topic, t). map (GO_row_data (get_text topic) cycle_number)
                                 (filter (GO_selects hs i) (tl t))) pairs)"

definition GTO_selects :: "string list \<Rightarrow> row \<Rightarrow> bool" where
  "GTO_selects hs r =
     (length (tds r) = length hs \<and>
      (case GTO_instrument_index hs of
         None \<Rightarrow> False
       | Some i \<Rightarrow> str_in ''NIRSpec/MOS'' (get_text (tds r ! i))))"

definition DDT_selects :: "string list \<Rightarrow> row \<Rightarrow> bool" where
  "DDT_selects hs r =
     (length (tds r) = length hs \<and>
      (case DDT_instrument_index hs of
         None \<Rightarrow> False
       | Some i \<Rightarrow> str_in ''NIRSpec'' (get_text (tds r ! i))))"

text \<open>On the status page a table's header names are the texts of the \<^verbatim>\<open>td\<close> cells of
  its first row.\<close>

definition table_headers :: "table \<Rightarrow> string list" where
  "table_headers t = map get_text (tds (hd t))"

definition status_selects :: "string list \<Rightarrow> row \<Rightarrow> bool" where
  "status_selects hs r =
     (length (tds r) = length hs \<and> ''Template'' \<in> set hs \<and>
      str_in ''NIRSpec MultiObject Spectroscopy''
        (get_text (tds r ! first_index hs ''Template'')))"

definition status_records :: "table \<Rightarrow> status_record list" where
  "status_records t =
     map (\<lambda>r. dict (zip (table_headers t) (map get_text (tds r))))
       (filter (status_selects (table_headers t)) (tl t))"

definition merge_headers :: "string list \<Rightarrow> string list \<Rightarrow> string list" where
  "merge_headers all_headers headers =
     all_headers @ filter (\<lambda>header. header \<notin> set all_headers) headers"



text \<open>The outcomes of the \<^verbatim>\<open>try\<close> block that the \<^verbatim>\<open>except\<close> clause catches.\<close>

definition transient :: "exn + 'a \<Rightarrow> bool" where
  "transient x = (x = Inl ConnectionError \<or> x = Inl Timeout)"

text \<open>Renaming the instrument column of a page from \<^verbatim>\<open>Instrument/Mode\<close> to
  \<^verbatim>\<open>Instrument/ Mode\<close>: every heading cell that reads the first is replaced by one that
  reads the second; nothing else changes.\<close>

definition rename_alias :: "string \<Rightarrow> string" where
  "rename_alias h = (if h = ''Instrument/Mode'' then ''Instrument/ Mode'' else h)"

definition rename_alias_cell :: "cell \<Rightarrow> cell" where
  "rename_alias_cell c =
     (if get_text c = ''Instrument/Mode'' then c\<lparr>strings := [''Instrument/ Mode'']\<rparr> else c)"

definition rename_alias_row :: "row \<Rightarrow> row" where
  "rename_alias_row r = r\<lparr>ths := map rename_alias_cell (ths r)\<rparr>"

definition rename_alias_page :: "page \<Rightarrow> page" where
  "rename_alias_page p = p\<lparr>tables := map (map rename_alias_row) (tables p)\<rparr>"

definition rename_alias_response :: "response \<Rightarrow> response" where
  "rename_alias_response resp = resp\<lparr>content := rename_alias_page (content resp)\<rparr>"

definition uses_spaced_alias :: "page \<Rightarrow> bool" where
  "uses_spaced_alias p =
     (\<exists>t\<in>set (tables p). \<exists>r\<in>set t. \<exists>c\<in>set (ths r). get_text c = ''Instrument/ Mode'')"

section \<open>Example pages and fetchers\<close>

definition text_cell :: "string \<Rightarrow> cell" where
  "text_cell s = \<lparr>strings = [s], has_img = False\<rparr>"

definition icon_cell :: cell where
  "icon_cell = \<lparr>strings = [], has_img = True\<rparr>"

definition heading_row :: "string list \<Rightarrow> row" where
  "heading_row names = \<lparr>ths = map text_cell names, tds = []\<rparr>"

definition cell_row :: "cell list \<Rightarrow> row" where
  "cell_row cells = \<lparr>ths = [], tds = cells\<rparr>"

definition data_row :: "string list \<Rightarrow> row" where
  "data_row texts = cell_row (map text_cell texts)"

definition ok_response :: "page \<Rightarrow> response" where
  "ok_response p = \<lparr>status_ok = True, content = p\<rparr>"

definition bad_response :: response where
  "bad_response = \<lparr>status_ok = False, content = \<lparr>tables = [], titles = []\<rparr>\<rparr>"

definition serve :: "page \<Rightarrow> string \<Rightarrow> exn + response" where
  "serve p url = Inr (ok_response p)"

text \<open>A GO page: one titled table, one NIRSpec/MOS row and one other row.\<close>

definition GO_page :: page where
  "GO_page =
     \<lparr>tables = [[heading_row [''Instrument/Mode'', ''PI'', ''ID''],
                 data_row [''NIRSpec/MOS Prism'', ''Smith'', ''GO-001''],
                 data_row [''MIRI/MRS'', ''Jones'', ''GO-002'']]],
      titles = [text_cell ''Galaxies'']\<rparr>"

text \<open>A GTO page with an \<^verbatim>\<open>AR?\<close> column: an icon in the first row, text in the second.\<close>

definition GTO_page :: page where
  "GTO_page =
     \<lparr>tables = [[heading_row [''ID'', ''Instrument/Mode'', ''AR?''],
                 cell_row [text_cell ''1210'', text_cell ''NIRSpec/MOS'', icon_cell],
                 cell_row [text_cell ''1211'', text_cell ''NIRSpec/MOS'', text_cell '' no ''],
                 cell_row [text_cell ''1212'', text_cell ''MIRI/MRS'', icon_cell]]],
      titles = []\<rparr>"

text \<open>A DDT page; its header list holds neither alias of the GO and GTO pages.\<close>

definition DDT_page :: page where
  "DDT_page =
     \<lparr>tables = [[heading_row [''ID'', ''Instruments''],
                 data_row [''2756'', ''NIRSpec, NIRCam''],
                 data_row [''2757'', ''MIRI'']]],
      titles = [text_cell ''Programs'']\<rparr>"

text \<open>A page of two tables whose header rows differ in length: the first has one heading
  and no data row, the second has two headings and one data row of a single cell.\<close>

definition two_table_page :: page where
  "two_table_page =
     \<lparr>tables = [[heading_row [''Instrument/Mode'']],
                [heading_row [''Instrument/Mode'', ''PI''], data_row [''NIRSpec/MOS'']]],
      titles = []\<rparr>"

text \<open>Status pages: a regular one, one whose header row repeats a name, and one that
  holds a table without rows.\<close>

definition status_page :: page where
  "status_page =
     \<lparr>tables = [[data_row [''Visit'', ''Template'', ''Status''],
                 data_row [''1:1'', ''NIRSpec MultiObject Spectroscopy'', ''Archived''],
                 data_row [''2:1'', ''NIRCam Imaging'', ''Archived'']],
                [data_row [''Visit'', ''Status'', ''Hours''],
                 data_row [''3:1'', ''Scheduled'', ''4.5'']]],
      titles = []\<rparr>"

definition repeated_header_page :: page where
  "repeated_header_page =
     \<lparr>tables = [[data_row [''Visit'', ''Visit''], data_row [''1:1'', ''1:2'']]], titles = []\<rparr>"

definition rowless_table_page :: page where
  "rowless_table_page = \<lparr>tables = [[]], titles = []\<rparr>"

text \<open>Sessions: two timeouts and then a page, a timeout at every call, two connection
  errors and then a bad status code.\<close>

definition timeout_twice_then :: "page \<Rightarrow> string \<Rightarrow> nat \<Rightarrow> exn + response" where
  "timeout_twice_then p url n = (if n < 2 then Inl Timeout else Inr (ok_response p))"

definition always_timeout :: "string \<Rightarrow> nat \<Rightarrow> exn + response" where
  "always_timeout url n = Inl Timeout"

definition bad_status_at_third :: "string \<Rightarrow> nat \<Rightarrow> exn + response" where
  "bad_status_at_third url n = (if n < 2 then Inl ConnectionError else Inr bad_response)"

definition serve_at_once :: "page \<Rightarrow> string \<Rightarrow> nat \<Rightarrow> exn + response" where
  "serve_at_once p url n = Inr (ok_response p)"



section \<open>Facts about lists and strings\<close>

lemma first_index_less: "x \<in> set xs \<Longrightarrow> first_index xs x < length xs"
  by (induction xs) auto

lemma nth_first_index: "x \<in> set xs \<Longrightarrow> xs ! first_index xs x = x"
  by (induction xs) auto

lemma py_index_Inr: "py_index xs x = Inr i \<Longrightarrow> i < length xs \<and> xs ! i = x"
  by (auto simp: py_index_def first_index_less nth_first_index split: if_splits)

section \<open>The loops in closed form\<close>

lemma GO_rows_closed:
  "GO_rows hs topic cyc rows data =
     (case GO_instrument_index hs of
        Inl e \<Rightarrow> if \<exists>r\<in>set rows. length (tds r) = length hs then Inl e else Inr data
      | Inr i \<Rightarrow> Inr (data @ map (GO_row_data topic cyc) (filter (GO_selects hs i) rows)))"
  by (induction rows arbitrary: data)
     (auto simp: GO_selects_def GO_row_data_def split: sum.splits)

lemma GO_tables_closed:
  "GO_tables pairs cyc data headers =
     (case effective_headers headers (map snd pairs) of
        None \<Rightarrow> Inr (data, None)
      | Some hs \<Rightarrow>
          (case GO_instrument_index hs of
             Inl e \<Rightarrow> if \<exists>t\<in>set (map snd pairs). \<exists>r\<in>set (tl t). length (tds r) = length hs
                       then Inl e else Inr (data, Some hs)
           | Inr i \<Rightarrow> Inr (data @ GO_emitted hs i cyc pairs, Some hs)))"
proof (induction pairs cyc data headers rule: GO_tables.induct)
  case (1 cycle_number data headers)
  then show ?case
    by (simp add: effective_headers_def GO_emitted_def split: option.splits sum.splits)
next
  case (2 topic rest cycle_number data headers)
  then show ?case
    by (simp add: effective_headers_def GO_emitted_def split: option.splits sum.splits)
next
  case (3 topic r0 rows rest cycle_number data headers)
  define hs where "hs = (case headers of None \<Rightarrow> map get_text (ths r0) | Some h \<Rightarrow> h)"
  have eff: "effective_headers headers (map snd ((topic, r0 # rows) # rest)) = Some hs"
    by (simp add: effective_headers_def hs_def split: option.splits)
  have eff': "effective_headers (Some hs) (map snd rest) = Some hs"
    by (simp add: effective_headers_def)
  show ?case
  proof (cases "GO_instrument_index hs")
    case (Inl e)
    show ?thesis
    proof (cases "\<exists>r\<in>set rows. length (tds r) = length hs")
      case True
      then show ?thesis
        using Inl eff by (auto simp: GO_rows_closed Let_def hs_def[symmetric])
    next
      case False
      then have rows: "GO_rows hs (get_text topic) cycle_number rows data = Inr data"
        using Inl by (simp add: GO_rows_closed)
      from "3.IH"[OF refl refl rows[unfolded hs_def]] False show ?thesis
        using Inl eff eff' rows by (auto simp: Let_def hs_def[symmetric])
    qed
  next
    case (Inr i)
    then have rows: "GO_rows hs (get_text topic) cycle_number rows data =
        Inr (data @ map (GO_row_data (get_text topic) cycle_number) (filter (GO_selects hs i) rows))"
      by (simp add: GO_rows_closed)
    from "3.IH"[OF refl refl rows[unfolded hs_def]] show ?thesis
      using Inr eff eff' rows by (simp add: Let_def hs_def[symmetric] GO_emitted_def)
  qed
qed

lemma in_GO_emitted:
  "r \<in> set (GO_emitted hs i cyc pairs) \<longleftrightarrow>
     (\<exists>topic t row. (topic, t) \<in> set pairs \<and> row \<in> set (tl t) \<and> GO_selects hs i row \<and>
        r = GO_row_data (get_text topic) cyc row)"
  by (auto simp: GO_emitted_def)

lemma GTO_rows_closed:
  "GTO_rows hs rows data =
     data @ map (\<lambda>r. GTO_row_data hs (tds r)) (filter (GTO_selects hs) rows)"
  by (induction rows arbitrary: data) (auto simp: GTO_selects_def split: option.splits)

lemma GTO_tables_closed:
  "GTO_tables tabs data headers =
     (case effective_headers headers tabs of
        None \<Rightarrow> (data, None)
      | Some hs \<Rightarrow> (data @ map (\<lambda>r. GTO_row_data hs (tds r))
                             (filter (GTO_selects hs) (concat (map tl tabs))), Some hs))"
  by (induction tabs data headers rule: GTO_tables.induct)
     (auto simp: effective_headers_def GTO_rows_closed Let_def split: option.splits)

lemma DDT_rows_closed:
  "DDT_rows hs rows data =
     data @ map (\<lambda>r. map get_text (tds r)) (filter (DDT_selects hs) rows)"
  by (induction rows arbitrary: data) (auto simp: DDT_selects_def split: option.splits)

lemma DDT_tables_closed:
  "DDT_tables tabs data headers =
     (case effective_headers headers tabs of
        None \<Rightarrow> (data, None)
      | Some hs \<Rightarrow> (data @ map (\<lambda>r. map get_text (tds r))
                             (filter (DDT_selects hs) (concat (map tl tabs))), Some hs))"
  by (induction tabs data headers rule: DDT_tables.induct)
     (auto simp: effective_headers_def DDT_rows_closed Let_def split: option.splits)

section \<open>Where an emitted row comes from\<close>

lemma GO_provenance:
  assumes "extract_basic_info_from_GO requests_get url cyc = Inr (data, headers)"
      and "r \<in> set data"
  shows "\<exists>resp hs i topic t row.
           requests_get url = Inr resp \<and> status_ok resp \<and> headers = Some hs \<and>
           first_headers (map snd (zip (titles (content resp)) (tables (content resp)))) = Some hs \<and>
           GO_instrument_index hs = Inr i \<and>
           (topic, t) \<in> set (zip (titles (content resp)) (tables (content resp))) \<and>
           row \<in> set (tl t) \<and> GO_selects hs i row \<and>
           r = GO_row_data (get_text topic) cyc row"
proof -
  from assms(1) obtain resp where resp: "requests_get url = Inr resp" "status_ok resp"
    and tabs: "GO_tables (zip (titles (content resp)) (tables (content resp))) cyc [] None
                 = Inr (data, headers)"
    by (auto simp: extract_basic_info_from_GO_def split: sum.splits if_splits)
  let ?pairs = "zip (titles (content resp)) (tables (content resp))"
  from tabs assms(2) obtain hs i where
    "first_headers (map snd ?pairs) = Some hs" "headers = Some hs"
    "GO_instrument_index hs = Inr i" "data = GO_emitted hs i cyc ?pairs"
    by (auto simp: GO_tables_closed effective_headers_def split: option.splits sum.splits if_splits)
  with resp assms(2) show ?thesis
    by (auto simp: in_GO_emitted)
qed

lemma GTO_provenance:
  assumes "extract_basic_info_from_GTO requests_get url = Inr (data, headers)"
      and "r \<in> set data"
  shows "\<exists>resp hs t row.
           requests_get url = Inr resp \<and> status_ok resp \<and> headers = Some hs \<and>
           first_headers (tables (content resp)) = Some hs \<and>
           t \<in> set (tables (content resp)) \<and> row \<in> set (tl t) \<and> GTO_selects hs row \<and>
           r = GTO_row_data hs (tds row)"
proof -
  from assms(1) obtain resp where resp: "requests_get url = Inr resp" "status_ok resp"
    and tabs: "GTO_tables (tables (content resp)) [] None = (data, headers)"
    by (auto simp: extract_basic_info_from_GTO_def split: sum.splits if_splits)
  from tabs assms(2) obtain hs where
    "first_headers (tables (content resp)) = Some hs" "headers = Some hs"
    "data = map (\<lambda>r. GTO_row_data hs (tds r))
              (filter (GTO_selects hs) (concat (map tl (tables (content resp)))))"
    by (auto simp: GTO_tables_closed effective_headers_def split: option.splits)
  with resp assms(2) show ?thesis
    by auto
qed

lemma DDT_provenance:
  assumes "extract_basic_info_from_DDT requests_get url = Inr (data, headers)"
      and "r \<in> set data"
  shows "\<exists>resp hs t row.
           requests_get url = Inr resp \<and> status_ok resp \<and> headers = Some hs \<and>
           first_headers (tables (content resp)) = Some hs \<and>
           t \<in> set (tables (content resp)) \<and> row \<in> set (tl t) \<and> DDT_selects hs row \<and>
           r = map get_text (tds row)"
proof -
  from assms(1) obtain resp where resp: "requests_get url = Inr resp" "status_ok resp"
    and tabs: "DDT_tables (tables (content resp)) [] None = (data, headers)"
    by (auto simp: extract_basic_info_from_DDT_def split: sum.splits if_splits)
  from tabs assms(2) obtain hs where
    "first_headers (tables (content resp)) = Some hs" "headers = Some hs"
    "data = map (\<lambda>r. map get_text (tds r))
              (filter (DDT_selects hs) (concat (map tl (tables (content resp)))))"
    by (auto simp: DDT_tables_closed effective_headers_def split: option.splits)
  with resp assms(2) show ?thesis
    by auto
qed

lemma GO_instrument_index_Inr:
  "GO_instrument_index hs = Inr i \<Longrightarrow>
     i < length hs \<and> (hs ! i = ''Instrument/Mode'' \<or> hs ! i = ''Instrument/ Mode'')"
  by (auto simp: GO_instrument_index_def dest: py_index_Inr split: if_splits)

lemma GTO_instrument_index_Some:
  "GTO_instrument_index hs = Some i \<Longrightarrow>
     i < length hs \<and> (hs ! i = ''Instrument/Mode'' \<or> hs ! i = ''Instrument/ Mode'')"
  by (auto simp: GTO_instrument_index_def first_index_less nth_first_index split: if_splits)

lemma DDT_instrument_index_Some:
  "DDT_instrument_index hs = Some i \<Longrightarrow> i < length hs \<and> hs ! i = ''Instruments''"
  by (auto simp: DDT_instrument_index_def first_index_less nth_first_index split: if_splits)

lemma GTO_row_data_nth:
  "length columns = length hs \<Longrightarrow> i < length hs \<Longrightarrow> hs ! i \<noteq> ''AR?'' \<Longrightarrow>
     GTO_row_data hs columns ! i = get_text (columns ! i)"
proof -
  assume len: "length columns = length hs" and i: "i < length hs" and ne: "hs ! i \<noteq> ''AR?''"
  have "''AR?'' \<in> set hs \<Longrightarrow> first_index hs ''AR?'' \<noteq> i"
    using ne nth_first_index by metis
  then show ?thesis
    using len i by (auto simp: GTO_row_data_def)
qed

lemma length_GTO_row_data: "length (GTO_row_data hs columns) = length columns"
  by (simp add: GTO_row_data_def)

section \<open>Every emitted row passes the filter\<close>

text \<open>
  Claim C1. Every row in the data an extractor returns has an instrument cell that
  contains the filter substring. For \<open>extract_basic_info_from_GO\<close> the cell is the one at
  the position the source resolves in the returned header list (\<^verbatim>\<open>Instrument/Mode\<close>
  unless \<^verbatim>\<open>Instrument/ Mode\<close> is present), and its text with newlines, carriage
  returns and spaces removed contains \<^verbatim>\<open>NIRSpec/MOS\<close>. For
  \<open>extract_basic_info_from_GTO\<close> the stripped cell text itself contains
  \<^verbatim>\<open>NIRSpec/MOS\<close>. For \<open>extract_basic_info_from_DDT\<close> the stripped cell of the
  \<^verbatim>\<open>Instruments\<close> column contains \<^verbatim>\<open>NIRSpec\<close>. So no row that fails the test
  is in the output.
\<close>

theorem emitted_rows_contain_filter_substring:
  "(extract_basic_info_from_GO requests_get url cycle_number = Inr (data, headers) \<and> r \<in> set data
      \<longrightarrow> (\<exists>hs i. headers = Some hs \<and> GO_instrument_index hs = Inr i \<and> i < length r \<and>
                  str_in ''NIRSpec/MOS'' (remove_blanks (r ! i)))) \<and>
   (extract_basic_info_from_GTO requests_get url = Inr (data, headers) \<and> r \<in> set data
      \<longrightarrow> (\<exists>hs i. headers = Some hs \<and> GTO_instrument_index hs = Some i \<and> i < length r \<and>
                  str_in ''NIRSpec/MOS'' (r ! i))) \<and>
   (extract_basic_info_from_DDT requests_get url = Inr (data, headers) \<and> r \<in> set data
      \<longrightarrow> (\<exists>hs. headers = Some hs \<and> ''Instruments'' \<in> set hs \<and>
                first_index hs ''Instruments'' < length r \<and>
                str_in ''NIRSpec'' (r ! first_index hs ''Instruments'')))"
proof (intro conjI impI)
  assume a: "extract_basic_info_from_GO requests_get url cycle_number = Inr (data, headers) \<and> r \<in> set data"
  then obtain hs i topic row where hs: "headers = Some hs" "GO_instrument_index hs = Inr i"
    and row: "GO_selects hs i row" "r = GO_row_data (get_text topic) cycle_number row"
    using GO_provenance by blast
  from hs(2) have i: "i < length hs" using GO_instrument_index_Inr by blast
  with row have "i < length r" "r ! i = get_text (tds row ! i)"
    by (auto simp: GO_selects_def GO_row_data_def nth_append)
  with hs row(1) show "\<exists>hs i. headers = Some hs \<and> GO_instrument_index hs = Inr i \<and> i < length r \<and>
                  str_in ''NIRSpec/MOS'' (remove_blanks (r ! i))"
    by (auto simp: GO_selects_def)
next
  assume a: "extract_basic_info_from_GTO requests_get url = Inr (data, headers) \<and> r \<in> set data"
  then obtain hs row where hs: "headers = Some hs"
    and row: "GTO_selects hs row" "r = GTO_row_data hs (tds row)"
    using GTO_provenance by blast
  from row(1) obtain i where i: "GTO_instrument_index hs = Some i"
    and len: "length (tds row) = length hs"
    and sub: "str_in ''NIRSpec/MOS'' (get_text (tds row ! i))"
    by (auto simp: GTO_selects_def split: option.splits)
  from i have "i < length hs" "hs ! i \<noteq> ''AR?''"
    using GTO_instrument_index_Some by fastforce+
  with len row(2) have "i < length r" "r ! i = get_text (tds row ! i)"
    by (simp_all add: length_GTO_row_data GTO_row_data_nth)
  with hs i sub show "\<exists>hs i. headers = Some hs \<and> GTO_instrument_index hs = Some i \<and> i < length r \<and>
                  str_in ''NIRSpec/MOS'' (r ! i)"
    by simp
next
  assume a: "extract_basic_info_from_DDT requests_get url = Inr (data, headers) \<and> r \<in> set data"
  then obtain hs row where hs: "headers = Some hs"
    and row: "DDT_selects hs row" "r = map get_text (tds row)"
    using DDT_provenance by blast
  from row(1) obtain i where i: "DDT_instrument_index hs = Some i"
    and len: "length (tds row) = length hs"
    and sub: "str_in ''NIRSpec'' (get_text (tds row ! i))"
    by (auto simp: DDT_selects_def split: option.splits)
  from i have mem: "''Instruments'' \<in> set hs" and i': "i = first_index hs ''Instruments''"
    by (auto simp: DDT_instrument_index_def split: if_splits)
  from mem have "first_index hs ''Instruments'' < length hs" by (rule first_index_less)
  with len row(2) sub i' hs mem
  show "\<exists>hs. headers = Some hs \<and> ''Instruments'' \<in> set hs \<and>
                first_index hs ''Instruments'' < length r \<and>
                str_in ''NIRSpec'' (r ! first_index hs ''Instruments'')"
    by simp
qed


theorem emitted_rows_contain_filter_substring_witness:
  "extract_basic_info_from_GO (serve GO_page) ''u'' ''Cycle 1''
     = Inr ([[''NIRSpec/MOS Prism'', ''Smith'', ''GO-001'', ''Galaxies'', ''Cycle 1'']],
            Some [''Instrument/Mode'', ''PI'', ''ID'']) \<and>
   (\<exists>hs i. Some [''Instrument/Mode'', ''PI'', ''ID''] = Some hs \<and>
       GO_instrument_index hs = Inr i \<and>
       i < length [''NIRSpec/MOS Prism'', ''Smith'', ''GO-001'', ''Galaxies'', ''Cycle 1''] \<and>
       str_in ''NIRSpec/MOS''
         (remove_blanks ([''NIRSpec/MOS Prism'', ''Smith'', ''GO-001'', ''Galaxies'', ''Cycle 1''] ! i))) \<and>
   extract_basic_info_from_GTO (serve GTO_page) ''u''
     = Inr ([[''1210'', ''NIRSpec/MOS'', ''AR''], [''1211'', ''NIRSpec/MOS'', ''no'']],
            Some [''ID'', ''Instrument/Mode'', ''AR?'']) \<and>
   (\<exists>hs i. Some [''ID'', ''Instrument/Mode'', ''AR?''] = Some hs \<and>
       GTO_instrument_index hs = Some i \<and> i < length [''1211'', ''NIRSpec/MOS'', ''no''] \<and>
       str_in ''NIRSpec/MOS'' ([''1211'', ''NIRSpec/MOS'', ''no''] ! i)) \<and>
   extract_basic_info_from_DDT (serve DDT_page) ''u''
     = Inr ([[''2756'', ''NIRSpec, NIRCam'']], Some [''ID'', ''Instruments'']) \<and>
   (\<exists>hs. Some [''ID'', ''Instruments''] = Some hs \<and> ''Instruments'' \<in> set hs \<and>
       first_index hs ''Instruments'' < length [''2756'', ''NIRSpec, NIRCam''] \<and>
       str_in ''NIRSpec'' ([''2756'', ''NIRSpec, NIRCam''] ! first_index hs ''Instruments''))"
proof -
  have go: "extract_basic_info_from_GO (serve GO_page) ''u'' ''Cycle 1''
     = Inr ([[''NIRSpec/MOS Prism'', ''Smith'', ''GO-001'', ''Galaxies'', ''Cycle 1'']],
            Some [''Instrument/Mode'', ''PI'', ''ID''])"
    by code_simp
  have gto: "extract_basic_info_from_GTO (serve GTO_page) ''u''
     = Inr ([[''1210'', ''NIRSpec/MOS'', ''AR''], [''1211'', ''NIRSpec/MOS'', ''no'']],
            Some [''ID'', ''Instrument/Mode'', ''AR?''])"
    by code_simp
  have ddt: "extract_basic_info_from_DDT (serve DDT_page) ''u''
     = Inr ([[''2756'', ''NIRSpec, NIRCam'']], Some [''ID'', ''Instruments''])"
    by code_simp
  note thm1 = emitted_rows_contain_filter_substring
    [of "serve GO_page" "''u''" "''Cycle 1''"
        "[[''NIRSpec/MOS Prism'', ''Smith'', ''GO-001'', ''Galaxies'', ''Cycle 1'']]"
        "Some [''Instrument/Mode'', ''PI'', ''ID'']"
        "[''NIRSpec/MOS Prism'', ''Smith'', ''GO-001'', ''Galaxies'', ''Cycle 1'']"]
  note thm2 = emitted_rows_contain_filter_substring
    [of "serve GTO_page" "''u''" _
        "[[''1210'', ''NIRSpec/MOS'', ''AR''], [''1211'', ''NIRSpec/MOS'', ''no'']]"
        "Some [''ID'', ''Instrument/Mode'', ''AR?'']" "[''1211'', ''NIRSpec/MOS'', ''no'']"]
  note thm3 = emitted_rows_contain_filter_substring
    [of "serve DDT_page" "''u''" _ "[[''2756'', ''NIRSpec, NIRCam'']]"
        "Some [''ID'', ''Instruments'']" "[''2756'', ''NIRSpec, NIRCam'']"]
  from thm1 go have c1: "\<exists>hs i. Some [''Instrument/Mode'', ''PI'', ''ID''] = Some hs \<and>
       GO_instrument_index hs = Inr i \<and>
       i < length [''NIRSpec/MOS Prism'', ''Smith'', ''GO-001'', ''Galaxies'', ''Cycle 1''] \<and>
       str_in ''NIRSpec/MOS''
         (remove_blanks ([''NIRSpec/MOS Prism'', ''Smith'', ''GO-001'', ''Galaxies'', ''Cycle 1''] ! i))"
    by simp
  from thm2 gto have c2: "\<exists>hs i. Some [''ID'', ''Instrument/Mode'', ''AR?''] = Some hs \<and>
       GTO_instrument_index hs = Some i \<and> i < length [''1211'', ''NIRSpec/MOS'', ''no''] \<and>
       str_in ''NIRSpec/MOS'' ([''1211'', ''NIRSpec/MOS'', ''no''] ! i)"
    by simp
  from thm3 ddt have c3: "\<exists>hs. Some [''ID'', ''Instruments''] = Some hs \<and> ''Instruments'' \<in> set hs \<and>
       first_index hs ''Instruments'' < length [''2756'', ''NIRSpec, NIRCam''] \<and>
       str_in ''NIRSpec'' ([''2756'', ''NIRSpec, NIRCam''] ! first_index hs ''Instruments'')"
    by simp
  from go c1 gto c2 ddt c3 show ?thesis by blast
qed

section \<open>The status page in closed form\<close>

lemma status_rows_closed:
  "status_rows hs (template_index_of hs) rows data =
     data @ map (\<lambda>r. dict (zip hs (map get_text (tds r)))) (filter (status_selects hs) rows)"
  by (induction rows arbitrary: data)
     (auto simp: status_selects_def template_index_of_def first_index_less)

lemma status_tables_closed:
  "status_tables tabs data all_headers =
     (if [] \<in> set tabs then Inl IndexError
      else Inr (data @ concat (map status_records tabs),
                foldl merge_headers all_headers (map table_headers tabs)))"
proof (induction tabs data all_headers rule: status_tables.induct)
  case (1 all_status_data all_headers)
  then show ?case by simp
next
  case (2 rest all_status_data all_headers)
  then show ?case by simp
next
  case (3 r0 rows rest all_status_data all_headers)
  show ?case
  proof (cases "map get_text (tds r0) = []")
    case True
    then have "status_records (r0 # rows) = []"
      by (simp add: status_records_def table_headers_def status_selects_def)
    with 3 True show ?thesis
      by (simp add: table_headers_def merge_headers_def)
  next
    case False
    with 3 show ?thesis
      by (simp add: Let_def status_rows_closed status_records_def table_headers_def
                    merge_headers_def)
  qed
qed

lemma status_extract_closed:
  "status_extract soup =
     (if [] \<in> set (tables soup) then Inl IndexError
      else Inr (concat (map status_records (tables soup)),
                foldl merge_headers [] (map table_headers (tables soup))))"
  by (simp add: status_extract_def status_tables_closed)

lemma status_extract_not_transient: "\<not> transient (status_extract soup)"
  by (simp add: status_extract_closed transient_def)

section \<open>The retry loop\<close>

lemma status_loop_stops:
  "\<forall>j<k. transient (status_try g url (c + j)) \<Longrightarrow> attempt + int k < retries \<Longrightarrow>
   \<not> transient (status_try g url (c + k)) \<Longrightarrow>
   status_loop g url retries attempt c = (status_try g url (c + k), Suc (c + k))"
proof (induction k arbitrary: attempt c)
  case 0
  then show ?case
    by (subst status_loop.simps) (auto simp: transient_def split: sum.splits)
next
  case (Suc k)
  from Suc.prems(1) have t0: "transient (status_try g url c)" by force
  have "\<forall>j<k. transient (status_try g url (Suc c + j))"
    using Suc.prems(1) by (metis Suc_less_eq add_Suc_shift)
  moreover have "(attempt + 1) + int k < retries" using Suc.prems(2) by simp
  moreover have "\<not> transient (status_try g url (Suc c + k))" using Suc.prems(3) by simp
  ultimately have "status_loop g url retries (attempt + 1) (Suc c) =
      (status_try g url (Suc c + k), Suc (Suc c + k))"
    by (rule Suc.IH)
  moreover have "attempt < retries" using Suc.prems(2) by simp
  ultimately show ?case using t0
    by (subst status_loop.simps) (auto simp: transient_def split: sum.splits)
qed

lemma status_loop_exhausts:
  "\<forall>j. transient (status_try g url (c + j)) \<Longrightarrow>
   status_loop g url retries attempt c = (Inr ([], []), c + nat (retries - attempt))"
proof (induction n \<equiv> "nat (retries - attempt)" arbitrary: attempt c)
  case 0
  then show ?case by (subst status_loop.simps) simp
next
  case (Suc n)
  from Suc.prems have t0: "transient (status_try g url c)" by (metis add.right_neutral)
  have lt: "attempt < retries" using Suc.hyps(2) by simp
  have "n = nat (retries - (attempt + 1))" using Suc.hyps(2) by simp
  moreover have "\<forall>j. transient (status_try g url (Suc c + j))"
    using Suc.prems by (metis add_Suc_shift)
  ultimately have "status_loop g url retries (attempt + 1) (Suc c)
      = (Inr ([], []), Suc c + nat (retries - (attempt + 1)))"
    by (rule Suc.hyps(1))
  moreover have "Suc c + nat (retries - (attempt + 1)) = c + nat (retries - attempt)"
    using lt by simp
  ultimately show ?case using t0 lt
    by (subst status_loop.simps) (auto simp: transient_def split: sum.splits)
qed

lemma status_try_transient_iff:
  "transient (status_try g url n) \<longleftrightarrow>
     g url n = Inl ConnectionError \<or> g url n = Inl Timeout"
  using status_extract_not_transient
  by (auto simp: status_try_def transient_def split: sum.splits)

text \<open>The whole function: the first call whose outcome is not caught ends it.\<close>

lemma get_observation_status_stops:
  assumes "\<forall>j<k. session_get (status_url proposal_id) j = Inl ConnectionError \<or>
                  session_get (status_url proposal_id) j = Inl Timeout"
      and "int k < retries"
      and "session_get (status_url proposal_id) k \<noteq> Inl ConnectionError"
      and "session_get (status_url proposal_id) k \<noteq> Inl Timeout"
  shows "get_observation_status session_get proposal_id retries =
           (status_try session_get (status_url proposal_id) k, Suc k)"
proof -
  have "status_loop session_get (status_url proposal_id) retries 0 0 =
          (status_try session_get (status_url proposal_id) (0 + k), Suc (0 + k))"
    by (rule status_loop_stops) (use assms in \<open>simp_all add: status_try_transient_iff\<close>)
  then show ?thesis by (simp add: get_observation_status_def)
qed

lemma get_observation_status_exhausts:
  assumes "\<forall>n. session_get (status_url proposal_id) n = Inl ConnectionError \<or>
                session_get (status_url proposal_id) n = Inl Timeout"
  shows "get_observation_status session_get proposal_id retries = (Inr ([], []), nat retries)"
proof -
  have "status_loop session_get (status_url proposal_id) retries 0 0 =
          (Inr ([], []), 0 + nat (retries - 0))"
    by (rule status_loop_exhausts) (use assms in \<open>simp add: status_try_transient_iff\<close>)
  then show ?thesis by (simp add: get_observation_status_def)
qed

section \<open>Retrying the status fetch\<close>

text \<open>
  Claim C2. With a retry budget of 3, when \<^verbatim>\<open>session.get\<close> raises a timeout at the first
  two calls and succeeds at the third, \<open>get_observation_status\<close> ends with the outcome of
  the extraction on the page of that third call, after exactly 3 calls. When every call
  raises a timeout, the function makes exactly \<open>retries\<close> calls and returns two empty
  lists, not an exception.
\<close>

theorem status_fetch_retry:
  "(session_get (status_url proposal_id) 0 = Inl Timeout \<and>
    session_get (status_url proposal_id) 1 = Inl Timeout \<and>
    session_get (status_url proposal_id) 2 = Inr resp \<and> status_ok resp
      \<longrightarrow> get_observation_status session_get proposal_id 3
            = (status_extract (content resp), 3)) \<and>
   ((\<forall>n. session_get (status_url proposal_id) n = Inl Timeout) \<and> 0 \<le> retries
      \<longrightarrow> get_observation_status session_get proposal_id retries = (Inr ([], []), nat retries) \<and>
          int (snd (get_observation_status session_get proposal_id retries)) = retries)"
proof (rule conjI; rule impI)
  assume a: "session_get (status_url proposal_id) 0 = Inl Timeout \<and>
    session_get (status_url proposal_id) 1 = Inl Timeout \<and>
    session_get (status_url proposal_id) 2 = Inr resp \<and> status_ok resp"
  have "\<forall>j<2. session_get (status_url proposal_id) j = Inl ConnectionError \<or>
                session_get (status_url proposal_id) j = Inl Timeout"
  proof (intro allI impI)
    fix j :: nat assume "j < 2"
    then have "j = 0 \<or> j = 1" by auto
    with a show "session_get (status_url proposal_id) j = Inl ConnectionError \<or>
                session_get (status_url proposal_id) j = Inl Timeout" by auto
  qed
  from get_observation_status_stops [of 2 session_get proposal_id 3, OF this] a
  have "get_observation_status session_get proposal_id 3 =
           (status_try session_get (status_url proposal_id) 2, Suc 2)"
    by simp
  with a show "get_observation_status session_get proposal_id 3
            = (status_extract (content resp), 3)"
    by (simp add: status_try_def)
next
  assume a: "(\<forall>n. session_get (status_url proposal_id) n = Inl Timeout) \<and> 0 \<le> retries"
  then have r: "get_observation_status session_get proposal_id retries = (Inr ([], []), nat retries)"
    by (intro get_observation_status_exhausts) simp
  with a show "get_observation_status session_get proposal_id retries = (Inr ([], []), nat retries) \<and>
          int (snd (get_observation_status session_get proposal_id retries)) = retries"
    by simp
qed

theorem status_fetch_retry_witness:
  "timeout_twice_then status_page (status_url ''1234'') 0 = Inl Timeout \<and>
   timeout_twice_then status_page (status_url ''1234'') 1 = Inl Timeout \<and>
   timeout_twice_then status_page (status_url ''1234'') 2 = Inr (ok_response status_page) \<and>
   status_ok (ok_response status_page) \<and>
   get_observation_status (timeout_twice_then status_page) ''1234'' 3
     = (Inr ([[(''Visit'', ''1:1''), (''Template'', ''NIRSpec MultiObject Spectroscopy''),
               (''Status'', ''Archived'')]],
             [''Visit'', ''Template'', ''Status'', ''Hours'']), 3) \<and>
   (\<forall>n. always_timeout (status_url ''1234'') n = Inl Timeout) \<and> (0::int) \<le> 3 \<and>
   get_observation_status always_timeout ''1234'' 3 = (Inr ([], []), 3)"
proof -
  have h: "timeout_twice_then status_page (status_url ''1234'') 0 = Inl Timeout \<and>
   timeout_twice_then status_page (status_url ''1234'') 1 = Inl Timeout \<and>
   timeout_twice_then status_page (status_url ''1234'') 2 = Inr (ok_response status_page) \<and>
   status_ok (ok_response status_page)"
    by (simp add: timeout_twice_then_def ok_response_def)
  have e: "status_extract (content (ok_response status_page))
     = Inr ([[(''Visit'', ''1:1''), (''Template'', ''NIRSpec MultiObject Spectroscopy''),
               (''Status'', ''Archived'')]],
             [''Visit'', ''Template'', ''Status'', ''Hours''])"
    by code_simp
  have t: "\<forall>n. always_timeout (status_url ''1234'') n = Inl Timeout"
    by (simp add: always_timeout_def)
  from status_fetch_retry [of "timeout_twice_then status_page" "''1234''" "ok_response status_page"] h e
  have r1: "get_observation_status (timeout_twice_then status_page) ''1234'' 3
     = (Inr ([[(''Visit'', ''1:1''), (''Template'', ''NIRSpec MultiObject Spectroscopy''),
               (''Status'', ''Archived'')]],
             [''Visit'', ''Template'', ''Status'', ''Hours'']), 3)"
    by simp
  from status_fetch_retry [of always_timeout "''1234''" _ 3] t
  have r2: "get_observation_status always_timeout ''1234'' 3 = (Inr ([], []), 3)"
    by simp
  from h r1 t r2 show ?thesis by simp
qed

text \<open>
  Claim C5. In \<open>get_observation_status\<close> a call that completes with a bad HTTP status
  code raises \<open>HTTPError\<close> out of the function at once: the calls made are the ones up
  to and including that call, whatever the retry budget still allows. The retry loop
  catches connection errors and timeouts only: any other exception of a call leaves the
  function in the same way.
\<close>

theorem bad_status_propagates:
  "((\<forall>j<k. session_get (status_url proposal_id) j = Inl ConnectionError \<or>
            session_get (status_url proposal_id) j = Inl Timeout) \<and>
    int k < retries \<and>
    session_get (status_url proposal_id) k = Inr resp \<and> \<not> status_ok resp
      \<longrightarrow> get_observation_status session_get proposal_id retries = (Inl HTTPError, Suc k)) \<and>
   ((\<forall>j<k. session_get (status_url proposal_id) j = Inl ConnectionError \<or>
            session_get (status_url proposal_id) j = Inl Timeout) \<and>
    int k < retries \<and>
    session_get (status_url proposal_id) k = Inl e \<and> e \<noteq> ConnectionError \<and> e \<noteq> Timeout
      \<longrightarrow> get_observation_status session_get proposal_id retries = (Inl e, Suc k))"
proof (intro conjI impI)
  assume a: "(\<forall>j<k. session_get (status_url proposal_id) j = Inl ConnectionError \<or>
            session_get (status_url proposal_id) j = Inl Timeout) \<and>
    int k < retries \<and>
    session_get (status_url proposal_id) k = Inr resp \<and> \<not> status_ok resp"
  then have "get_observation_status session_get proposal_id retries =
           (status_try session_get (status_url proposal_id) k, Suc k)"
    by (intro get_observation_status_stops) simp_all
  with a show "get_observation_status session_get proposal_id retries = (Inl HTTPError, Suc k)"
    by (simp add: status_try_def)
next
  assume a: "(\<forall>j<k. session_get (status_url proposal_id) j = Inl ConnectionError \<or>
            session_get (status_url proposal_id) j = Inl Timeout) \<and>
    int k < retries \<and>
    session_get (status_url proposal_id) k = Inl e \<and> e \<noteq> ConnectionError \<and> e \<noteq> Timeout"
  then have "get_observation_status session_get proposal_id retries =
           (status_try session_get (status_url proposal_id) k, Suc k)"
    by (intro get_observation_status_stops) simp_all
  with a show "get_observation_status session_get proposal_id retries = (Inl e, Suc k)"
    by (simp add: status_try_def)
qed

theorem bad_status_propagates_witness:
  "bad_status_at_third (status_url ''1234'') 0 = Inl ConnectionError \<and>
   bad_status_at_third (status_url ''1234'') 1 = Inl ConnectionError \<and>
   bad_status_at_third (status_url ''1234'') 2 = Inr bad_response \<and>
   \<not> status_ok bad_response \<and> int 2 < 5 \<and>
   get_observation_status bad_status_at_third ''1234'' 5 = (Inl HTTPError, 3)"
proof -
  have h: "bad_status_at_third (status_url ''1234'') 0 = Inl ConnectionError \<and>
   bad_status_at_third (status_url ''1234'') 1 = Inl ConnectionError \<and>
   bad_status_at_third (status_url ''1234'') 2 = Inr bad_response \<and>
   \<not> status_ok bad_response \<and> int 2 < 5"
    by (simp add: bad_status_at_third_def bad_response_def)
  have before: "\<forall>j<2. bad_status_at_third (status_url ''1234'') j = Inl ConnectionError \<or>
                      bad_status_at_third (status_url ''1234'') j = Inl Timeout"
    by (simp add: bad_status_at_third_def)
  from bad_status_propagates [of 2 bad_status_at_third "''1234''" 5 bad_response] h before
  have "get_observation_status bad_status_at_third ''1234'' 5 = (Inl HTTPError, 3)"
    by simp
  with h show ?thesis by simp
qed

section \<open>Where a status record comes from\<close>

lemma status_loop_result:
  "status_loop g url retries attempt c = (Inr res, n) \<Longrightarrow>
     res = ([], []) \<or> (\<exists>k. status_try g url k = Inr res)"
proof (induction g url retries attempt c rule: status_loop.induct)
  case (1 session_get url retries attempt calls)
  show ?case
  proof (cases "attempt < retries")
    case False
    with "1.prems" show ?thesis by (subst (asm) status_loop.simps) simp
  next
    case True
    show ?thesis
    proof (cases "status_try session_get url calls")
      case (Inr result)
      with True "1.prems" have "res = result"
        by (subst (asm) status_loop.simps) simp
      with Inr show ?thesis by blast
    next
      case (Inl e)
      show ?thesis
      proof (cases "e = ConnectionError \<or> e = Timeout")
        case False
        with True Inl "1.prems" show ?thesis
          by (subst (asm) status_loop.simps) auto
      next
        case caught: True
        with True Inl "1.prems"
        have "status_loop session_get url retries (attempt + 1) (Suc calls) = (Inr res, n)"
          by (subst (asm) status_loop.simps) auto
        with "1.IH"[OF True Inl caught] show ?thesis by blast
      qed
    qed
  qed
qed

lemma status_provenance:
  assumes "get_observation_status session_get proposal_id retries = (Inr (records, all_headers), calls)"
      and "d \<in> set records"
  shows "\<exists>n resp t row.
           session_get (status_url proposal_id) n = Inr resp \<and> status_ok resp \<and>
           status_extract (content resp) = Inr (records, all_headers) \<and>
           t \<in> set (tables (content resp)) \<and> row \<in> set (tl t) \<and>
           status_selects (table_headers t) row \<and>
           d = dict (zip (table_headers t) (map get_text (tds row)))"
proof -
  from assms have "\<exists>k. status_try session_get (status_url proposal_id) k = Inr (records, all_headers)"
    using status_loop_result [of session_get "status_url proposal_id" retries 0 0 "(records, all_headers)" calls]
    by (auto simp: get_observation_status_def)
  then obtain k where k: "status_try session_get (status_url proposal_id) k = Inr (records, all_headers)"
    by blast
  then obtain resp where resp: "session_get (status_url proposal_id) k = Inr resp"
    by (cases "session_get (status_url proposal_id) k") (auto simp: status_try_def)
  with k have ok: "status_ok resp"
    and ex: "status_extract (content resp) = Inr (records, all_headers)"
    by (auto simp: status_try_def split: if_splits)
  note resp = resp ok
  from ex have "records = concat (map status_records (tables (content resp)))"
    by (auto simp: status_extract_closed split: if_splits)
  with assms(2) obtain t where t: "t \<in> set (tables (content resp))" "d \<in> set (status_records t)"
    by auto
  then obtain row where "row \<in> set (tl t)" "status_selects (table_headers t) row"
    "d = dict (zip (table_headers t) (map get_text (tds row)))"
    by (auto simp: status_records_def)
  with resp ex t(1) show ?thesis by blast
qed

section \<open>Cell counts and header counts\<close>

text \<open>
  Claim C3, as stated: every returned row has as many cells as the table it came from
  has headers. It fails for the three page extractors, which keep the header list of the
  first table that has rows and compare every later row with that list. On
  \<open>two_table_page\<close> the only data row is in the second table, which has two headings;
  the row has one cell and is returned.
\<close>

theorem GTO_row_not_of_own_header_count:
  "extract_basic_info_from_GTO (serve two_table_page) ''u''
     = Inr ([[''NIRSpec/MOS'']], Some [''Instrument/Mode'']) \<and>
   tables two_table_page
     = [[heading_row [''Instrument/Mode'']],
        [heading_row [''Instrument/Mode'', ''PI''], data_row [''NIRSpec/MOS'']]] \<and>
   length (tds (data_row [''NIRSpec/MOS''])) = 1 \<and>
   length (ths (heading_row [''Instrument/Mode'', ''PI''])) = 2"
  by code_simp

text \<open>
  Claim C3, amended. For \<open>extract_basic_info_from_GO\<close>, \<open>extract_basic_info_from_GTO\<close>
  and \<open>extract_basic_info_from_DDT\<close> every returned row comes from a data row whose cell
  count equals the length of the returned header list, which is the header row of the
  first table that has rows (GO appends the topic and the cycle to the cell texts). For
  \<open>get_observation_status\<close> every returned record comes from a data row whose cell count
  equals the header count of its own table.
\<close>

theorem emitted_rows_match_kept_header_count:
  "(extract_basic_info_from_GO requests_get url cycle_number = Inr (data, headers) \<and> r \<in> set data
      \<longrightarrow> (\<exists>resp hs topic t row.
             requests_get url = Inr resp \<and> headers = Some hs \<and>
             first_headers (map snd (zip (titles (content resp)) (tables (content resp)))) = Some hs \<and>
             (topic, t) \<in> set (zip (titles (content resp)) (tables (content resp))) \<and>
             row \<in> set (tl t) \<and> length (tds row) = length hs \<and>
             r = map get_text (tds row) @ [get_text topic, cycle_number])) \<and>
   (extract_basic_info_from_GTO requests_get url = Inr (data, headers) \<and> r \<in> set data
      \<longrightarrow> (\<exists>resp hs t row.
             requests_get url = Inr resp \<and> headers = Some hs \<and>
             first_headers (tables (content resp)) = Some hs \<and>
             t \<in> set (tables (content resp)) \<and> row \<in> set (tl t) \<and>
             length (tds row) = length hs \<and> r = GTO_row_data hs (tds row) \<and>
             length r = length hs)) \<and>
   (extract_basic_info_from_DDT requests_get url = Inr (data, headers) \<and> r \<in> set data
      \<longrightarrow> (\<exists>resp hs t row.
             requests_get url = Inr resp \<and> headers = Some hs \<and>
             first_headers (tables (content resp)) = Some hs \<and>
             t \<in> set (tables (content resp)) \<and> row \<in> set (tl t) \<and>
             length (tds row) = length hs \<and> r = map get_text (tds row))) \<and>
   (get_observation_status session_get proposal_id retries = (Inr (records, all_headers), calls) \<and>
    d \<in> set records
      \<longrightarrow> (\<exists>n resp t row.
             session_get (status_url proposal_id) n = Inr resp \<and>
             t \<in> set (tables (content resp)) \<and> row \<in> set (tl t) \<and>
             length (tds row) = length (tds (hd t)) \<and>
             d = dict (zip (table_headers t) (map get_text (tds row)))))"
proof (intro conjI impI)
  assume "extract_basic_info_from_GO requests_get url cycle_number = Inr (data, headers) \<and> r \<in> set data"
  then obtain resp hs i topic t row where
    "requests_get url = Inr resp" "headers = Some hs"
    "first_headers (map snd (zip (titles (content resp)) (tables (content resp)))) = Some hs"
    "(topic, t) \<in> set (zip (titles (content resp)) (tables (content resp)))"
    "row \<in> set (tl t)" "GO_selects hs i row" "r = GO_row_data (get_text topic) cycle_number row"
    using GO_provenance by blast
  then show "\<exists>resp hs topic t row.
             requests_get url = Inr resp \<and> headers = Some hs \<and>
             first_headers (map snd (zip (titles (content resp)) (tables (content resp)))) = Some hs \<and>
             (topic, t) \<in> set (zip (titles (content resp)) (tables (content resp))) \<and>
             row \<in> set (tl t) \<and> length (tds row) = length hs \<and>
             r = map get_text (tds row) @ [get_text topic, cycle_number]"
    unfolding GO_selects_def GO_row_data_def by blast
next
  assume "extract_basic_info_from_GTO requests_get url = Inr (data, headers) \<and> r \<in> set data"
  then obtain resp hs t row where
    "requests_get url = Inr resp" "headers = Some hs"
    "first_headers (tables (content resp)) = Some hs"
    "t \<in> set (tables (content resp))" "row \<in> set (tl t)" "GTO_selects hs row"
    "r = GTO_row_data hs (tds row)"
    using GTO_provenance by blast
  moreover from this have "length (tds row) = length hs" "length r = length hs"
    by (simp_all add: GTO_selects_def length_GTO_row_data)
  ultimately show "\<exists>resp hs t row.
             requests_get url = Inr resp \<and> headers = Some hs \<and>
             first_headers (tables (content resp)) = Some hs \<and>
             t \<in> set (tables (content resp)) \<and> row \<in> set (tl t) \<and>
             length (tds row) = length hs \<and> r = GTO_row_data hs (tds row) \<and>
             length r = length hs"
    by blast
next
  assume "extract_basic_info_from_DDT requests_get url = Inr (data, headers) \<and> r \<in> set data"
  then obtain resp hs t row where
    "requests_get url = Inr resp" "headers = Some hs"
    "first_headers (tables (content resp)) = Some hs"
    "t \<in> set (tables (content resp))" "row \<in> set (tl t)" "DDT_selects hs row"
    "r = map get_text (tds row)"
    using DDT_provenance by blast
  moreover from this have "length (tds row) = length hs"
    by (simp add: DDT_selects_def)
  ultimately show "\<exists>resp hs t row.
             requests_get url = Inr resp \<and> headers = Some hs \<and>
             first_headers (tables (content resp)) = Some hs \<and>
             t \<in> set (tables (content resp)) \<and> row \<in> set (tl t) \<and>
             length (tds row) = length hs \<and> r = map get_text (tds row)"
    by blast
next
  assume "get_observation_status session_get proposal_id retries = (Inr (records, all_headers), calls) \<and>
    d \<in> set records"
  then obtain n resp t row where
    "session_get (status_url proposal_id) n = Inr resp"
    "t \<in> set (tables (content resp))" "row \<in> set (tl t)"
    "status_selects (table_headers t) row"
    "d = dict (zip (table_headers t) (map get_text (tds row)))"
    using status_provenance by blast
  moreover from this have "length (tds row) = length (tds (hd t))"
    by (simp add: status_selects_def table_headers_def)
  ultimately show "\<exists>n resp t row.
             session_get (status_url proposal_id) n = Inr resp \<and>
             t \<in> set (tables (content resp)) \<and> row \<in> set (tl t) \<and>
             length (tds row) = length (tds (hd t)) \<and>
             d = dict (zip (table_headers t) (map get_text (tds row)))"
    by blast
qed

theorem emitted_rows_match_kept_header_count_witness:
  "extract_basic_info_from_GO (serve GO_page) ''u'' ''Cycle 1''
     = Inr ([[''NIRSpec/MOS Prism'', ''Smith'', ''GO-001'', ''Galaxies'', ''Cycle 1'']],
            Some [''Instrument/Mode'', ''PI'', ''ID'']) \<and>
   (\<exists>resp hs topic t row.
       serve GO_page ''u'' = Inr resp \<and> Some [''Instrument/Mode'', ''PI'', ''ID''] = Some hs \<and>
       first_headers (map snd (zip (titles (content resp)) (tables (content resp)))) = Some hs \<and>
       (topic, t) \<in> set (zip (titles (content resp)) (tables (content resp))) \<and>
       row \<in> set (tl t) \<and> length (tds row) = length hs \<and>
       [''NIRSpec/MOS Prism'', ''Smith'', ''GO-001'', ''Galaxies'', ''Cycle 1'']
         = map get_text (tds row) @ [get_text topic, ''Cycle 1'']) \<and>
   extract_basic_info_from_GTO (serve two_table_page) ''u''
     = Inr ([[''NIRSpec/MOS'']], Some [''Instrument/Mode'']) \<and>
   (\<exists>resp hs t row.
       serve two_table_page ''u'' = Inr resp \<and> Some [''Instrument/Mode''] = Some hs \<and>
       first_headers (tables (content resp)) = Some hs \<and>
       t \<in> set (tables (content resp)) \<and> row \<in> set (tl t) \<and>
       length (tds row) = length hs \<and> [''NIRSpec/MOS''] = GTO_row_data hs (tds row) \<and>
       length [''NIRSpec/MOS''] = length hs) \<and>
   extract_basic_info_from_DDT (serve DDT_page) ''u''
     = Inr ([[''2756'', ''NIRSpec, NIRCam'']], Some [''ID'', ''Instruments'']) \<and>
   (\<exists>resp hs t row.
       serve DDT_page ''u'' = Inr resp \<and> Some [''ID'', ''Instruments''] = Some hs \<and>
       first_headers (tables (content resp)) = Some hs \<and>
       t \<in> set (tables (content resp)) \<and> row \<in> set (tl t) \<and>
       length (tds row) = length hs \<and> [''2756'', ''NIRSpec, NIRCam''] = map get_text (tds row)) \<and>
   get_observation_status (serve_at_once status_page) ''1234'' 3
     = (Inr ([[(''Visit'', ''1:1''), (''Template'', ''NIRSpec MultiObject Spectroscopy''),
        (''Status'', ''Archived'')]],
             [''Visit'', ''Template'', ''Status'', ''Hours'']), 1) \<and>
   (\<exists>n resp t row.
       serve_at_once status_page (status_url ''1234'') n = Inr resp \<and>
       t \<in> set (tables (content resp)) \<and> row \<in> set (tl t) \<and>
       length (tds row) = length (tds (hd t)) \<and>
       [(''Visit'', ''1:1''), (''Template'', ''NIRSpec MultiObject Spectroscopy''),
        (''Status'', ''Archived'')]
         = dict (zip (table_headers t) (map get_text (tds row))))"
proof -
  have go: "extract_basic_info_from_GO (serve GO_page) ''u'' ''Cycle 1''
     = Inr ([[''NIRSpec/MOS Prism'', ''Smith'', ''GO-001'', ''Galaxies'', ''Cycle 1'']],
            Some [''Instrument/Mode'', ''PI'', ''ID''])"
    by code_simp
  have gto: "extract_basic_info_from_GTO (serve two_table_page) ''u''
     = Inr ([[''NIRSpec/MOS'']], Some [''Instrument/Mode''])"
    by code_simp
  have ddt: "extract_basic_info_from_DDT (serve DDT_page) ''u''
     = Inr ([[''2756'', ''NIRSpec, NIRCam'']], Some [''ID'', ''Instruments''])"
    by code_simp
  have ex: "status_extract status_page
     = Inr ([[(''Visit'', ''1:1''), (''Template'', ''NIRSpec MultiObject Spectroscopy''),
        (''Status'', ''Archived'')]],
             [''Visit'', ''Template'', ''Status'', ''Hours''])"
    by code_simp
  have st: "get_observation_status (serve_at_once status_page) ''1234'' 3
     = (Inr ([[(''Visit'', ''1:1''), (''Template'', ''NIRSpec MultiObject Spectroscopy''),
        (''Status'', ''Archived'')]],
             [''Visit'', ''Template'', ''Status'', ''Hours'']), 1)"
    using get_observation_status_stops [of 0 "serve_at_once status_page" "''1234''" 3] ex
    by (simp add: serve_at_once_def status_try_def ok_response_def)
  have p1: "extract_basic_info_from_GO (serve GO_page) ''u'' ''Cycle 1''
     = Inr ([[''NIRSpec/MOS Prism'', ''Smith'', ''GO-001'', ''Galaxies'', ''Cycle 1'']],
            Some [''Instrument/Mode'', ''PI'', ''ID'']) \<and>
     [''NIRSpec/MOS Prism'', ''Smith'', ''GO-001'', ''Galaxies'', ''Cycle 1'']
       \<in> set [[''NIRSpec/MOS Prism'', ''Smith'', ''GO-001'', ''Galaxies'', ''Cycle 1'']]"
    using go by simp
  have p2: "extract_basic_info_from_GTO (serve two_table_page) ''u''
     = Inr ([[''NIRSpec/MOS'']], Some [''Instrument/Mode'']) \<and>
     [''NIRSpec/MOS''] \<in> set [[''NIRSpec/MOS'']]"
    using gto by simp
  have p3: "extract_basic_info_from_DDT (serve DDT_page) ''u''
     = Inr ([[''2756'', ''NIRSpec, NIRCam'']], Some [''ID'', ''Instruments'']) \<and>
     [''2756'', ''NIRSpec, NIRCam''] \<in> set [[''2756'', ''NIRSpec, NIRCam'']]"
    using ddt by simp
  have p4: "get_observation_status (serve_at_once status_page) ''1234'' 3
     = (Inr ([[(''Visit'', ''1:1''), (''Template'', ''NIRSpec MultiObject Spectroscopy''),
        (''Status'', ''Archived'')]],
             [''Visit'', ''Template'', ''Status'', ''Hours'']), 1) \<and>
     [(''Visit'', ''1:1''), (''Template'', ''NIRSpec MultiObject Spectroscopy''),
        (''Status'', ''Archived'')]
       \<in> set [[(''Visit'', ''1:1''), (''Template'', ''NIRSpec MultiObject Spectroscopy''),
        (''Status'', ''Archived'')]]"
    using st by simp
  have c1: "(\<exists>resp hs topic t row.
       serve GO_page ''u'' = Inr resp \<and> Some [''Instrument/Mode'', ''PI'', ''ID''] = Some hs \<and>
       first_headers (map snd (zip (titles (content resp)) (tables (content resp)))) = Some hs \<and>
       (topic, t) \<in> set (zip (titles (content resp)) (tables (content resp))) \<and>
       row \<in> set (tl t) \<and> length (tds row) = length hs \<and>
       [''NIRSpec/MOS Prism'', ''Smith'', ''GO-001'', ''Galaxies'', ''Cycle 1'']
         = map get_text (tds row) @ [get_text topic, ''Cycle 1''])"
    by (rule emitted_rows_match_kept_header_count
          [THEN conjunct1, THEN mp, OF p1])
  have c2: "(\<exists>resp hs t row.
       serve two_table_page ''u'' = Inr resp \<and> Some [''Instrument/Mode''] = Some hs \<and>
       first_headers (tables (content resp)) = Some hs \<and>
       t \<in> set (tables (content resp)) \<and> row \<in> set (tl t) \<and>
       length (tds row) = length hs \<and> [''NIRSpec/MOS''] = GTO_row_data hs (tds row) \<and>
       length [''NIRSpec/MOS''] = length hs)"
    by (rule emitted_rows_match_kept_header_count
          [THEN conjunct2, THEN conjunct1, THEN mp, OF p2])
  have c3: "(\<exists>resp hs t row.
       serve DDT_page ''u'' = Inr resp \<and> Some [''ID'', ''Instruments''] = Some hs \<and>
       first_headers (tables (content resp)) = Some hs \<and>
       t \<in> set (tables (content resp)) \<and> row \<in> set (tl t) \<and>
       length (tds row) = length hs \<and> [''2756'', ''NIRSpec, NIRCam''] = map get_text (tds row))"
    by (rule emitted_rows_match_kept_header_count
          [THEN conjunct2, THEN conjunct2, THEN conjunct1, THEN mp, OF p3])
  have c4: "(\<exists>n resp t row.
       serve_at_once status_page (status_url ''1234'') n = Inr resp \<and>
       t \<in> set (tables (content resp)) \<and> row \<in> set (tl t) \<and>
       length (tds row) = length (tds (hd t)) \<and>
       [(''Visit'', ''1:1''), (''Template'', ''NIRSpec MultiObject Spectroscopy''),
        (''Status'', ''Archived'')]
         = dict (zip (table_headers t) (map get_text (tds row))))"
    by (rule emitted_rows_match_kept_header_count
          [THEN conjunct2, THEN conjunct2, THEN conjunct2, THEN mp, OF p4])
  show ?thesis
    by (intro conjI) (rule go c1 gto c2 ddt c3 st c4)+
qed

section \<open>The archival-research marker of GTO rows\<close>

text \<open>
  Claim C9. Every row \<open>extract_basic_info_from_GTO\<close> returns comes from a data row of the
  page with as many cells as the header list has names. When the header list has a
  column \<^verbatim>\<open>AR?\<close> and the row's cell in that column holds an image element, the
  returned row is the list of stripped cell texts with the text at that position
  replaced by \<^verbatim>\<open>AR\<close>; when the cell holds no image, or there is no such column, the
  returned row is the list of stripped cell texts unchanged.
\<close>

theorem GTO_AR_marker:
  "extract_basic_info_from_GTO requests_get url = Inr (data, headers) \<and> r \<in> set data
     \<longrightarrow> (\<exists>resp hs t row.
            requests_get url = Inr resp \<and> headers = Some hs \<and>
            t \<in> set (tables (content resp)) \<and> row \<in> set (tl t) \<and>
            length (tds row) = length hs \<and>
            r = (if ''AR?'' \<in> set hs \<and> has_img (tds row ! first_index hs ''AR?'')
                 then (map get_text (tds row))[first_index hs ''AR?'' := ''AR'']
                 else map get_text (tds row)) \<and>
            (''AR?'' \<in> set hs \<and> has_img (tds row ! first_index hs ''AR?'')
               \<longrightarrow> r ! first_index hs ''AR?'' = ''AR''))"
proof
  assume "extract_basic_info_from_GTO requests_get url = Inr (data, headers) \<and> r \<in> set data"
  then obtain resp hs t row where
    f: "requests_get url = Inr resp" "headers = Some hs"
       "t \<in> set (tables (content resp))" "row \<in> set (tl t)"
    and sel: "GTO_selects hs row" and r: "r = GTO_row_data hs (tds row)"
    using GTO_provenance by blast
  from sel have len: "length (tds row) = length hs"
    by (simp add: GTO_selects_def)
  have r': "r = (if ''AR?'' \<in> set hs \<and> has_img (tds row ! first_index hs ''AR?'')
                 then (map get_text (tds row))[first_index hs ''AR?'' := ''AR'']
                 else map get_text (tds row))"
    using r by (simp add: GTO_row_data_def)
  have "''AR?'' \<in> set hs \<and> has_img (tds row ! first_index hs ''AR?'')
               \<longrightarrow> r ! first_index hs ''AR?'' = ''AR''"
    using r' len by (auto simp: first_index_less)
  with f len r' show "\<exists>resp hs t row.
            requests_get url = Inr resp \<and> headers = Some hs \<and>
            t \<in> set (tables (content resp)) \<and> row \<in> set (tl t) \<and>
            length (tds row) = length hs \<and>
            r = (if ''AR?'' \<in> set hs \<and> has_img (tds row ! first_index hs ''AR?'')
                 then (map get_text (tds row))[first_index hs ''AR?'' := ''AR'']
                 else map get_text (tds row)) \<and>
            (''AR?'' \<in> set hs \<and> has_img (tds row ! first_index hs ''AR?'')
               \<longrightarrow> r ! first_index hs ''AR?'' = ''AR'')"
    by blast
qed

theorem GTO_AR_marker_witness:
  "extract_basic_info_from_GTO (serve GTO_page) ''u''
     = Inr ([[''1210'', ''NIRSpec/MOS'', ''AR''], [''1211'', ''NIRSpec/MOS'', ''no'']],
            Some [''ID'', ''Instrument/Mode'', ''AR?'']) \<and>
   (\<exists>resp hs t row.
       serve GTO_page ''u'' = Inr resp \<and> Some [''ID'', ''Instrument/Mode'', ''AR?''] = Some hs \<and>
       t \<in> set (tables (content resp)) \<and> row \<in> set (tl t) \<and>
       length (tds row) = length hs \<and>
       [''1210'', ''NIRSpec/MOS'', ''AR'']
         = (if ''AR?'' \<in> set hs \<and> has_img (tds row ! first_index hs ''AR?'')
            then (map get_text (tds row))[first_index hs ''AR?'' := ''AR'']
            else map get_text (tds row)) \<and>
       (''AR?'' \<in> set hs \<and> has_img (tds row ! first_index hs ''AR?'')
          \<longrightarrow> [''1210'', ''NIRSpec/MOS'', ''AR''] ! first_index hs ''AR?'' = ''AR'')) \<and>
   (\<exists>resp hs t row.
       serve GTO_page ''u'' = Inr resp \<and> Some [''ID'', ''Instrument/Mode'', ''AR?''] = Some hs \<and>
       t \<in> set (tables (content resp)) \<and> row \<in> set (tl t) \<and>
       length (tds row) = length hs \<and>
       [''1211'', ''NIRSpec/MOS'', ''no'']
         = (if ''AR?'' \<in> set hs \<and> has_img (tds row ! first_index hs ''AR?'')
            then (map get_text (tds row))[first_index hs ''AR?'' := ''AR'']
            else map get_text (tds row)) \<and>
       (''AR?'' \<in> set hs \<and> has_img (tds row ! first_index hs ''AR?'')
          \<longrightarrow> [''1211'', ''NIRSpec/MOS'', ''no''] ! first_index hs ''AR?'' = ''AR''))"
proof -
  have gto: "extract_basic_info_from_GTO (serve GTO_page) ''u''
     = Inr ([[''1210'', ''NIRSpec/MOS'', ''AR''], [''1211'', ''NIRSpec/MOS'', ''no'']],
            Some [''ID'', ''Instrument/Mode'', ''AR?''])"
    by code_simp
  have p1: "extract_basic_info_from_GTO (serve GTO_page) ''u''
     = Inr ([[''1210'', ''NIRSpec/MOS'', ''AR''], [''1211'', ''NIRSpec/MOS'', ''no'']],
            Some [''ID'', ''Instrument/Mode'', ''AR?'']) \<and>
     [''1210'', ''NIRSpec/MOS'', ''AR'']
       \<in> set [[''1210'', ''NIRSpec/MOS'', ''AR''], [''1211'', ''NIRSpec/MOS'', ''no'']]"
    using gto by simp
  have p2: "extract_basic_info_from_GTO (serve GTO_page) ''u''
     = Inr ([[''1210'', ''NIRSpec/MOS'', ''AR''], [''1211'', ''NIRSpec/MOS'', ''no'']],
            Some [''ID'', ''Instrument/Mode'', ''AR?'']) \<and>
     [''1211'', ''NIRSpec/MOS'', ''no'']
       \<in> set [[''1210'', ''NIRSpec/MOS'', ''AR''], [''1211'', ''NIRSpec/MOS'', ''no'']]"
    using gto by simp
  show ?thesis
    by (intro conjI) (rule gto GTO_AR_marker [THEN mp, OF p1] GTO_AR_marker [THEN mp, OF p2])+
qed

section \<open>A header list without the instrument column\<close>

text \<open>
  Claim C10, as stated: when the header list holds neither \<^verbatim>\<open>Instrument/Mode\<close> nor
  \<^verbatim>\<open>Instrument/ Mode\<close> and a data row has as many cells as the list has names, GO
  raises while GTO and DDT skip the row. It fails for \<open>extract_basic_info_from_DDT\<close>,
  whose instrument column is \<^verbatim>\<open>Instruments\<close>: on \<open>DDT_page\<close> the header list holds
  neither alias, the first data row has two cells as the list has two names, and the
  row is returned.
\<close>

theorem DDT_keeps_row_without_alias:
  "extract_basic_info_from_DDT (serve DDT_page) ''u''
     = Inr ([[''2756'', ''NIRSpec, NIRCam'']], Some [''ID'', ''Instruments'']) \<and>
   first_headers (tables DDT_page) = Some [''ID'', ''Instruments''] \<and>
   ''Instrument/Mode'' \<notin> set [''ID'', ''Instruments''] \<and>
   ''Instrument/ Mode'' \<notin> set [''ID'', ''Instruments''] \<and>
   data_row [''2756'', ''NIRSpec, NIRCam''] \<in> set (tl (hd (tables DDT_page))) \<and>
   length (tds (data_row [''2756'', ''NIRSpec, NIRCam''])) = length [''ID'', ''Instruments'']"
  by code_simp

text \<open>
  Claim C10, amended. When the kept header list holds neither \<^verbatim>\<open>Instrument/Mode\<close> nor
  \<^verbatim>\<open>Instrument/ Mode\<close> and a data row of a table paired with a title has as many cells
  as the list has names, \<open>extract_basic_info_from_GO\<close> raises ValueError, the failed
  \<^verbatim>\<open>index\<close> lookup. Under the same header list \<open>extract_basic_info_from_GTO\<close> skips
  every row and returns no data with the header list. \<open>extract_basic_info_from_DDT\<close> does
  so when its own column \<^verbatim>\<open>Instruments\<close> is absent from the header list. After a
  successful fetch neither GTO nor DDT raises.
\<close>

theorem missing_instrument_column:
  "(requests_get url = Inr resp \<and> status_ok resp \<and>
    first_headers (map snd (zip (titles (content resp)) (tables (content resp)))) = Some hs \<and>
    ''Instrument/Mode'' \<notin> set hs \<and> ''Instrument/ Mode'' \<notin> set hs \<and>
    (topic, t) \<in> set (zip (titles (content resp)) (tables (content resp))) \<and>
    row \<in> set (tl t) \<and> length (tds row) = length hs
      \<longrightarrow> extract_basic_info_from_GO requests_get url cycle_number = Inl ValueError) \<and>
   (requests_get url = Inr resp \<and> status_ok resp \<and>
    first_headers (tables (content resp)) = Some hs \<and>
    ''Instrument/Mode'' \<notin> set hs \<and> ''Instrument/ Mode'' \<notin> set hs
      \<longrightarrow> extract_basic_info_from_GTO requests_get url = Inr ([], Some hs)) \<and>
   (requests_get url = Inr resp \<and> status_ok resp \<and>
    first_headers (tables (content resp)) = Some hs \<and> ''Instruments'' \<notin> set hs
      \<longrightarrow> extract_basic_info_from_DDT requests_get url = Inr ([], Some hs)) \<and>
   (requests_get url = Inr resp \<and> status_ok resp
      \<longrightarrow> (\<exists>data headers. extract_basic_info_from_GTO requests_get url = Inr (data, headers)) \<and>
          (\<exists>data headers. extract_basic_info_from_DDT requests_get url = Inr (data, headers)))"
proof (intro conjI impI)
  assume a: "requests_get url = Inr resp \<and> status_ok resp \<and>
    first_headers (map snd (zip (titles (content resp)) (tables (content resp)))) = Some hs \<and>
    ''Instrument/Mode'' \<notin> set hs \<and> ''Instrument/ Mode'' \<notin> set hs \<and>
    (topic, t) \<in> set (zip (titles (content resp)) (tables (content resp))) \<and>
    row \<in> set (tl t) \<and> length (tds row) = length hs"
  then have idx: "GO_instrument_index hs = Inl ValueError"
    by (simp add: GO_instrument_index_def py_index_def)
  from a have "t \<in> set (map snd (zip (titles (content resp)) (tables (content resp))))"
    by force
  with a have "\<exists>t\<in>set (map snd (zip (titles (content resp)) (tables (content resp)))).
                 \<exists>r\<in>set (tl t). length (tds r) = length hs"
    by blast
  with a idx show "extract_basic_info_from_GO requests_get url cycle_number = Inl ValueError"
    by (simp add: extract_basic_info_from_GO_def GO_tables_closed effective_headers_def)
next
  assume a: "requests_get url = Inr resp \<and> status_ok resp \<and>
    first_headers (tables (content resp)) = Some hs \<and>
    ''Instrument/Mode'' \<notin> set hs \<and> ''Instrument/ Mode'' \<notin> set hs"
  then have "GTO_instrument_index hs = None"
    by (simp add: GTO_instrument_index_def)
  then have "\<And>rows. filter (GTO_selects hs) rows = []"
    by (simp add: GTO_selects_def)
  with a show "extract_basic_info_from_GTO requests_get url = Inr ([], Some hs)"
    by (simp add: extract_basic_info_from_GTO_def GTO_tables_closed effective_headers_def)
next
  assume a: "requests_get url = Inr resp \<and> status_ok resp \<and>
    first_headers (tables (content resp)) = Some hs \<and> ''Instruments'' \<notin> set hs"
  then have "DDT_instrument_index hs = None"
    by (simp add: DDT_instrument_index_def)
  then have "\<And>rows. filter (DDT_selects hs) rows = []"
    by (simp add: DDT_selects_def)
  with a show "extract_basic_info_from_DDT requests_get url = Inr ([], Some hs)"
    by (simp add: extract_basic_info_from_DDT_def DDT_tables_closed effective_headers_def)
next
  assume "requests_get url = Inr resp \<and> status_ok resp"
  then show "\<exists>data headers. extract_basic_info_from_GTO requests_get url = Inr (data, headers)"
    by (simp add: extract_basic_info_from_GTO_def)
next
  assume "requests_get url = Inr resp \<and> status_ok resp"
  then show "\<exists>data headers. extract_basic_info_from_DDT requests_get url = Inr (data, headers)"
    by (simp add: extract_basic_info_from_DDT_def)
qed

theorem missing_instrument_column_witness:
  "serve DDT_page ''u'' = Inr (ok_response DDT_page) \<and> status_ok (ok_response DDT_page) \<and>
   first_headers (map snd (zip (titles (content (ok_response DDT_page)))
                               (tables (content (ok_response DDT_page)))))
     = Some [''ID'', ''Instruments''] \<and>
   first_headers (tables (content (ok_response DDT_page))) = Some [''ID'', ''Instruments''] \<and>
   ''Instrument/Mode'' \<notin> set [''ID'', ''Instruments''] \<and>
   ''Instrument/ Mode'' \<notin> set [''ID'', ''Instruments''] \<and>
   (text_cell ''Programs'', hd (tables DDT_page))
     \<in> set (zip (titles (content (ok_response DDT_page)))
                 (tables (content (ok_response DDT_page)))) \<and>
   data_row [''2757'', ''MIRI''] \<in> set (tl (hd (tables DDT_page))) \<and>
   length (tds (data_row [''2757'', ''MIRI''])) = length [''ID'', ''Instruments''] \<and>
   extract_basic_info_from_GO (serve DDT_page) ''u'' ''Cycle 1'' = Inl ValueError \<and>
   extract_basic_info_from_GTO (serve DDT_page) ''u'' = Inr ([], Some [''ID'', ''Instruments'']) \<and>
   serve GO_page ''u'' = Inr (ok_response GO_page) \<and> status_ok (ok_response GO_page) \<and>
   first_headers (tables (content (ok_response GO_page)))
     = Some [''Instrument/Mode'', ''PI'', ''ID''] \<and>
   ''Instruments'' \<notin> set [''Instrument/Mode'', ''PI'', ''ID''] \<and>
   extract_basic_info_from_DDT (serve GO_page) ''u''
     = Inr ([], Some [''Instrument/Mode'', ''PI'', ''ID''])"
proof -
  have h1: "serve DDT_page ''u'' = Inr (ok_response DDT_page) \<and> status_ok (ok_response DDT_page) \<and>
   first_headers (map snd (zip (titles (content (ok_response DDT_page)))
                               (tables (content (ok_response DDT_page)))))
     = Some [''ID'', ''Instruments''] \<and>
   ''Instrument/Mode'' \<notin> set [''ID'', ''Instruments''] \<and>
   ''Instrument/ Mode'' \<notin> set [''ID'', ''Instruments''] \<and>
   (text_cell ''Programs'', hd (tables DDT_page))
     \<in> set (zip (titles (content (ok_response DDT_page)))
                 (tables (content (ok_response DDT_page)))) \<and>
   data_row [''2757'', ''MIRI''] \<in> set (tl (hd (tables DDT_page))) \<and>
   length (tds (data_row [''2757'', ''MIRI''])) = length [''ID'', ''Instruments'']"
    by code_simp
  have h2: "serve DDT_page ''u'' = Inr (ok_response DDT_page) \<and> status_ok (ok_response DDT_page) \<and>
   first_headers (tables (content (ok_response DDT_page))) = Some [''ID'', ''Instruments''] \<and>
   ''Instrument/Mode'' \<notin> set [''ID'', ''Instruments''] \<and>
   ''Instrument/ Mode'' \<notin> set [''ID'', ''Instruments'']"
    by code_simp
  have h3: "serve GO_page ''u'' = Inr (ok_response GO_page) \<and> status_ok (ok_response GO_page) \<and>
   first_headers (tables (content (ok_response GO_page)))
     = Some [''Instrument/Mode'', ''PI'', ''ID''] \<and>
   ''Instruments'' \<notin> set [''Instrument/Mode'', ''PI'', ''ID'']"
    by code_simp
  have go: "extract_basic_info_from_GO (serve DDT_page) ''u'' ''Cycle 1'' = Inl ValueError"
    by (rule missing_instrument_column
          [where requests_get = "serve DDT_page" and url = "''u''"
             and resp = "ok_response DDT_page" and hs = "[''ID'', ''Instruments'']"
             and topic = "text_cell ''Programs''" and t = "hd (tables DDT_page)"
             and row = "data_row [''2757'', ''MIRI'']",
           THEN conjunct1, THEN mp, OF h1])
  have gto: "extract_basic_info_from_GTO (serve DDT_page) ''u'' = Inr ([], Some [''ID'', ''Instruments''])"
    by (rule missing_instrument_column
          [where requests_get = "serve DDT_page" and url = "''u''"
             and resp = "ok_response DDT_page" and hs = "[''ID'', ''Instruments'']",
           THEN conjunct2, THEN conjunct1, THEN mp, OF h2])
  have ddt: "extract_basic_info_from_DDT (serve GO_page) ''u''
     = Inr ([], Some [''Instrument/Mode'', ''PI'', ''ID''])"
    by (rule missing_instrument_column
          [where requests_get = "serve GO_page" and url = "''u''"
             and resp = "ok_response GO_page" and hs = "[''Instrument/Mode'', ''PI'', ''ID'']",
           THEN conjunct2, THEN conjunct2, THEN conjunct1, THEN mp, OF h3])
  from h1 h2 h3 go gto ddt show ?thesis by simp
qed

section \<open>Renaming the instrument column\<close>

lemma get_text_rename_alias_cell: "get_text (rename_alias_cell c) = rename_alias (get_text c)"
proof (cases "get_text c = ''Instrument/Mode''")
  case True
  have "get_text (c\<lparr>strings := [''Instrument/ Mode'']\<rparr>) = ''Instrument/ Mode''"
    by (simp add: get_text_def strip_def is_space_def)
  with True show ?thesis by (simp add: rename_alias_cell_def rename_alias_def)
next
  case False
  then show ?thesis by (simp add: rename_alias_cell_def rename_alias_def)
qed

lemma tds_rename_alias_row: "tds (rename_alias_row r) = tds r"
  by (simp add: rename_alias_row_def)

lemma headers_rename_alias_row:
  "map get_text (ths (rename_alias_row r)) = map rename_alias (map get_text (ths r))"
  by (simp add: rename_alias_row_def get_text_rename_alias_cell)

lemma first_headers_rename:
  "first_headers (map (map rename_alias_row) tabs)
     = map_option (map rename_alias) (first_headers tabs)"
  by (induction tabs rule: first_headers.induct) (simp_all add: headers_rename_alias_row)

lemma first_headers_from_table:
  "first_headers tabs = Some hs \<Longrightarrow> \<exists>t\<in>set tabs. \<exists>r\<in>set t. hs = map get_text (ths r)"
  by (induction tabs rule: first_headers.induct) auto

lemma first_index_map_other:
  "x \<noteq> ''Instrument/Mode'' \<Longrightarrow> x \<noteq> ''Instrument/ Mode'' \<Longrightarrow>
     first_index (map rename_alias hs) x = first_index hs x \<and>
     (x \<in> set (map rename_alias hs) \<longleftrightarrow> x \<in> set hs)"
  by (induction hs) (auto simp: rename_alias_def)

lemma first_index_map_alias:
  "''Instrument/ Mode'' \<notin> set hs \<Longrightarrow>
     first_index (map rename_alias hs) ''Instrument/ Mode'' = first_index hs ''Instrument/Mode'' \<and>
     (''Instrument/ Mode'' \<in> set (map rename_alias hs) \<longleftrightarrow> ''Instrument/Mode'' \<in> set hs) \<and>
     ''Instrument/Mode'' \<notin> set (map rename_alias hs)"
  by (induction hs) (auto simp: rename_alias_def)

lemma GO_instrument_index_rename:
  "''Instrument/ Mode'' \<notin> set hs \<Longrightarrow>
     GO_instrument_index (map rename_alias hs) = GO_instrument_index hs"
  using first_index_map_alias [of hs]
  by (auto simp: GO_instrument_index_def py_index_def rename_alias_def)

lemma GTO_instrument_index_rename:
  "''Instrument/ Mode'' \<notin> set hs \<Longrightarrow>
     GTO_instrument_index (map rename_alias hs) = GTO_instrument_index hs"
  using first_index_map_alias [of hs]
  by (auto simp: GTO_instrument_index_def)

lemma GTO_row_data_rename: "GTO_row_data (map rename_alias hs) columns = GTO_row_data hs columns"
  using first_index_map_other [of "''AR?''" hs]
  by (simp add: GTO_row_data_def)

lemma tl_rename: "tl (map rename_alias_row t) = map rename_alias_row (tl t)"
  by (cases t) simp_all

lemma map_filter_rename:
  "(\<And>r. P (rename_alias_row r) = Q r) \<Longrightarrow> (\<And>r. f (rename_alias_row r) = g r) \<Longrightarrow>
     map f (filter P (map rename_alias_row rs)) = map g (filter Q rs)"
  by (induction rs) auto

lemma GO_rows_rename:
  "map (GO_row_data topic cyc) (filter (GO_selects hs' i) (tl (map rename_alias_row t)))
     = map (GO_row_data topic cyc) (filter (GO_selects hs' i) (tl t))"
  unfolding tl_rename
  by (rule map_filter_rename) (simp_all add: GO_selects_def GO_row_data_def tds_rename_alias_row)

lemma GO_emitted_rename:
  "GO_emitted hs' i cyc (zip ts (map (map rename_alias_row) tabs)) = GO_emitted hs' i cyc (zip ts tabs)"
  by (simp add: GO_emitted_def zip_map2 comp_def case_prod_unfold GO_rows_rename)

lemma GO_matching_row_rename:
  "(\<exists>t\<in>set (map snd (zip ts (map (map rename_alias_row) tabs))). \<exists>r\<in>set (tl t). length (tds r) = n)
     \<longleftrightarrow> (\<exists>t\<in>set (map snd (zip ts tabs)). \<exists>r\<in>set (tl t). length (tds r) = n)"
  by (simp add: zip_map2 comp_def case_prod_unfold tl_rename tds_rename_alias_row)

lemma GTO_rows_rename:
  assumes "length hs' = length hs" "GTO_instrument_index hs' = GTO_instrument_index hs"
  shows "map (\<lambda>r. f (tds r)) (filter (GTO_selects hs') (tl (map rename_alias_row t)))
           = map (\<lambda>r. f (tds r)) (filter (GTO_selects hs) (tl t))"
  unfolding tl_rename
  by (rule map_filter_rename)
     (simp_all add: GTO_selects_def tds_rename_alias_row assms cong: option.case_cong)

lemma GTO_emitted_rename:
  "length hs' = length hs \<Longrightarrow> GTO_instrument_index hs' = GTO_instrument_index hs \<Longrightarrow>
   map (\<lambda>r. f (tds r)) (filter (GTO_selects hs') (concat (map tl (map (map rename_alias_row) tabs))))
     = map (\<lambda>r. f (tds r)) (filter (GTO_selects hs) (concat (map tl tabs)))"
  by (induction tabs) (simp_all add: GTO_rows_rename)

lemma no_spaced_alias_headers:
  assumes "\<not> uses_spaced_alias p" "first_headers tabs = Some hs" "set tabs \<subseteq> set (tables p)"
  shows "''Instrument/ Mode'' \<notin> set hs"
proof
  assume mem: "''Instrument/ Mode'' \<in> set hs"
  from assms(2) obtain t r where t: "t \<in> set tabs" "r \<in> set t" "hs = map get_text (ths r)"
    using first_headers_from_table by blast
  from mem t(3) obtain c where "c \<in> set (ths r)" "get_text c = ''Instrument/ Mode''"
    by auto
  moreover from t(1) assms(3) have "t \<in> set (tables p)" by blast
  ultimately have "uses_spaced_alias p"
    unfolding uses_spaced_alias_def using t(2) by blast
  with assms(1) show False by simp
qed

lemma GO_tables_rename:
  assumes "\<not> uses_spaced_alias p" "set tabs \<subseteq> set (tables p)"
  shows "GO_tables (zip ts (map (map rename_alias_row) tabs)) cyc [] None
           = map_sum id (\<lambda>(data, headers). (data, map_option (map rename_alias) headers))
               (GO_tables (zip ts tabs) cyc [] None)"
proof -
  have m: "map snd (zip ts (map (map rename_alias_row) tabs))
             = map (map rename_alias_row) (map snd (zip ts tabs))"
    by (simp add: zip_map2 comp_def case_prod_unfold)
  have fh: "first_headers (map snd (zip ts (map (map rename_alias_row) tabs)))
              = map_option (map rename_alias) (first_headers (map snd (zip ts tabs)))"
    by (simp only: m first_headers_rename)
  show ?thesis
  proof (cases "first_headers (map snd (zip ts tabs))")
    case None
    then show ?thesis
      by (simp add: GO_tables_closed effective_headers_def fh)
  next
    case (Some hs)
    have "set (map snd (zip ts tabs)) \<subseteq> set (tables p)"
      using assms(2) by (auto dest: set_zip_rightD)
    with assms(1) Some have "''Instrument/ Mode'' \<notin> set hs"
      by (rule no_spaced_alias_headers)
    then have idx: "GO_instrument_index (map rename_alias hs) = GO_instrument_index hs"
      by (rule GO_instrument_index_rename)
    have "GO_selects (map rename_alias hs) = GO_selects hs"
      by (intro ext) (simp add: GO_selects_def)
    then have em: "\<And>i pairs. GO_emitted (map rename_alias hs) i cyc pairs = GO_emitted hs i cyc pairs"
      by (simp add: GO_emitted_def)
    show ?thesis
    proof (cases "GO_instrument_index hs")
      case (Inl e)
      with Some idx GO_matching_row_rename [of ts tabs "length hs"] show ?thesis
        by (simp add: GO_tables_closed effective_headers_def fh)
    next
      case (Inr i)
      with Some idx show ?thesis
        by (simp add: GO_tables_closed effective_headers_def fh GO_emitted_rename em)
    qed
  qed
qed

lemma GTO_tables_rename:
  assumes "\<not> uses_spaced_alias p" "set tabs \<subseteq> set (tables p)"
  shows "GTO_tables (map (map rename_alias_row) tabs) [] None
           = (\<lambda>(data, headers). (data, map_option (map rename_alias) headers))
               (GTO_tables tabs [] None)"
proof (cases "first_headers tabs")
  case None
  then show ?thesis
    by (simp add: GTO_tables_closed effective_headers_def first_headers_rename)
next
  case (Some hs)
  from assms(1) Some assms(2) have "''Instrument/ Mode'' \<notin> set hs"
    by (rule no_spaced_alias_headers)
  then have idx: "GTO_instrument_index (map rename_alias hs) = GTO_instrument_index hs"
    by (rule GTO_instrument_index_rename)
  have "map (\<lambda>r. GTO_row_data hs (tds r))
          (filter (GTO_selects (map rename_alias hs))
             (concat (map tl (map (map rename_alias_row) tabs))))
        = map (\<lambda>r. GTO_row_data hs (tds r)) (filter (GTO_selects hs) (concat (map tl tabs)))"
    by (rule GTO_emitted_rename) (simp_all add: idx)
  with Some show ?thesis
    by (simp add: GTO_tables_closed effective_headers_def first_headers_rename
                  GTO_row_data_rename)
qed

text \<open>
  Claim C4. Take a page none of whose heading cells reads \<^verbatim>\<open>Instrument/ Mode\<close>, and
  the page that differs from it only in naming the instrument column
  \<^verbatim>\<open>Instrument/ Mode\<close> where the first has \<^verbatim>\<open>Instrument/Mode\<close>. On the two pages
  \<open>extract_basic_info_from_GO\<close> ends alike: with the same exception, or with the same
  data rows and with header lists that differ only in that name. The same holds for
  \<open>extract_basic_info_from_GTO\<close>.
\<close>

theorem header_alias_equivalence:
  "requests_get url = Inr resp \<and> requests_get' url = Inr (rename_alias_response resp) \<and>
   \<not> uses_spaced_alias (content resp)
     \<longrightarrow> extract_basic_info_from_GO requests_get' url cycle_number
           = map_sum id (\<lambda>(data, headers). (data, map_option (map rename_alias) headers))
               (extract_basic_info_from_GO requests_get url cycle_number) \<and>
         extract_basic_info_from_GTO requests_get' url
           = map_sum id (\<lambda>(data, headers). (data, map_option (map rename_alias) headers))
               (extract_basic_info_from_GTO requests_get url)"
proof
  assume a: "requests_get url = Inr resp \<and> requests_get' url = Inr (rename_alias_response resp) \<and>
   \<not> uses_spaced_alias (content resp)"
  have r: "status_ok (rename_alias_response resp) = status_ok resp"
    "titles (content (rename_alias_response resp)) = titles (content resp)"
    "tables (content (rename_alias_response resp))
       = map (map rename_alias_row) (tables (content resp))"
    by (simp_all add: rename_alias_response_def rename_alias_page_def)
  from a have go: "GO_tables (zip (titles (content resp))
                       (map (map rename_alias_row) (tables (content resp)))) cycle_number [] None
           = map_sum id (\<lambda>(data, headers). (data, map_option (map rename_alias) headers))
               (GO_tables (zip (titles (content resp)) (tables (content resp))) cycle_number [] None)"
    by (intro GO_tables_rename [of "content resp"]) simp_all
  from a have gto: "GTO_tables (map (map rename_alias_row) (tables (content resp))) [] None
           = (\<lambda>(data, headers). (data, map_option (map rename_alias) headers))
               (GTO_tables (tables (content resp)) [] None)"
    by (intro GTO_tables_rename [of "content resp"]) simp_all
  from a show "extract_basic_info_from_GO requests_get' url cycle_number
           = map_sum id (\<lambda>(data, headers). (data, map_option (map rename_alias) headers))
               (extract_basic_info_from_GO requests_get url cycle_number) \<and>
         extract_basic_info_from_GTO requests_get' url
           = map_sum id (\<lambda>(data, headers). (data, map_option (map rename_alias) headers))
               (extract_basic_info_from_GTO requests_get url)"
    by (simp add: extract_basic_info_from_GO_def extract_basic_info_from_GTO_def r go gto)
qed

theorem header_alias_equivalence_witness:
  "serve GO_page ''u'' = Inr (ok_response GO_page) \<and>
   serve (rename_alias_page GO_page) ''u'' = Inr (rename_alias_response (ok_response GO_page)) \<and>
   \<not> uses_spaced_alias (content (ok_response GO_page)) \<and>
   tables (rename_alias_page GO_page)
     = [[heading_row [''Instrument/ Mode'', ''PI'', ''ID''],
         data_row [''NIRSpec/MOS Prism'', ''Smith'', ''GO-001''],
         data_row [''MIRI/MRS'', ''Jones'', ''GO-002'']]] \<and>
   extract_basic_info_from_GO (serve GO_page) ''u'' ''Cycle 1''
     = Inr ([[''NIRSpec/MOS Prism'', ''Smith'', ''GO-001'', ''Galaxies'', ''Cycle 1'']],
            Some [''Instrument/Mode'', ''PI'', ''ID'']) \<and>
   extract_basic_info_from_GO (serve (rename_alias_page GO_page)) ''u'' ''Cycle 1''
     = Inr ([[''NIRSpec/MOS Prism'', ''Smith'', ''GO-001'', ''Galaxies'', ''Cycle 1'']],
            Some [''Instrument/ Mode'', ''PI'', ''ID'']) \<and>
   extract_basic_info_from_GTO (serve GO_page) ''u''
     = Inr ([[''NIRSpec/MOS Prism'', ''Smith'', ''GO-001'']],
            Some [''Instrument/Mode'', ''PI'', ''ID'']) \<and>
   extract_basic_info_from_GTO (serve (rename_alias_page GO_page)) ''u''
     = Inr ([[''NIRSpec/MOS Prism'', ''Smith'', ''GO-001'']],
            Some [''Instrument/ Mode'', ''PI'', ''ID''])"
proof -
  have h: "serve GO_page ''u'' = Inr (ok_response GO_page) \<and>
   serve (rename_alias_page GO_page) ''u'' = Inr (rename_alias_response (ok_response GO_page)) \<and>
   \<not> uses_spaced_alias (content (ok_response GO_page))"
    by code_simp
  have t: "tables (rename_alias_page GO_page)
     = [[heading_row [''Instrument/ Mode'', ''PI'', ''ID''],
         data_row [''NIRSpec/MOS Prism'', ''Smith'', ''GO-001''],
         data_row [''MIRI/MRS'', ''Jones'', ''GO-002'']]]"
    by code_simp
  have go: "extract_basic_info_from_GO (serve GO_page) ''u'' ''Cycle 1''
     = Inr ([[''NIRSpec/MOS Prism'', ''Smith'', ''GO-001'', ''Galaxies'', ''Cycle 1'']],
            Some [''Instrument/Mode'', ''PI'', ''ID''])"
    by code_simp
  have gto: "extract_basic_info_from_GTO (serve GO_page) ''u''
     = Inr ([[''NIRSpec/MOS Prism'', ''Smith'', ''GO-001'']],
            Some [''Instrument/Mode'', ''PI'', ''ID''])"
    by code_simp
  note eq = header_alias_equivalence
    [where requests_get = "serve GO_page" and requests_get' = "serve (rename_alias_page GO_page)"
       and url = "''u''" and resp = "ok_response GO_page" and cycle_number = "''Cycle 1''",
     THEN mp, OF h]
  have go': "extract_basic_info_from_GO (serve (rename_alias_page GO_page)) ''u'' ''Cycle 1''
     = Inr ([[''NIRSpec/MOS Prism'', ''Smith'', ''GO-001'', ''Galaxies'', ''Cycle 1'']],
            Some [''Instrument/ Mode'', ''PI'', ''ID''])"
    using eq [THEN conjunct1] by (simp add: go rename_alias_def)
  have gto': "extract_basic_info_from_GTO (serve (rename_alias_page GO_page)) ''u''
     = Inr ([[''NIRSpec/MOS Prism'', ''Smith'', ''GO-001'']],
            Some [''Instrument/ Mode'', ''PI'', ''ID''])"
    using eq [THEN conjunct2] by (simp add: gto rename_alias_def)
  from h t go go' gto gto' show ?thesis by simp
qed

section \<open>The header list of the status page\<close>

lemma set_foldl_merge_headers:
  "set (foldl merge_headers all_headers hss) = set all_headers \<union> \<Union> (set ` set hss)"
  by (induction hss arbitrary: all_headers) (auto simp: merge_headers_def)

lemma distinct_merge_headers:
  "distinct all_headers \<Longrightarrow> distinct hs \<Longrightarrow> distinct (merge_headers all_headers hs)"
  by (auto simp: merge_headers_def)

lemma distinct_foldl_merge_headers:
  "distinct all_headers \<Longrightarrow> \<forall>hs\<in>set hss. distinct hs \<Longrightarrow>
     distinct (foldl merge_headers all_headers hss)"
  by (induction hss arbitrary: all_headers) (simp_all add: distinct_merge_headers)

text \<open>
  Claim C8 says that the header list \<open>get_observation_status\<close> returns holds the header
  names of all tables in order of first appearance and without duplicates. The list
  does hold exactly those names (\<open>set_foldl_merge_headers\<close>), and it has no duplicates
  when no table repeats a name in its own header row (\<open>distinct_foldl_merge_headers\<close>).
  The names of one table are filtered against the list as it was before that table,
  so a name that a header row repeats is appended twice: on \<open>repeated_header_page\<close> the
  returned list is \<^verbatim>\<open>Visit, Visit\<close>.
\<close>

theorem repeated_header_is_returned_twice:
  "tables repeated_header_page = [[data_row [''Visit'', ''Visit''], data_row [''1:1'', ''1:2'']]] \<and>
   get_observation_status (serve_at_once repeated_header_page) ''1234'' 3
     = (Inr ([], [''Visit'', ''Visit'']), 1) \<and>
   \<not> distinct [''Visit'', ''Visit'']"
proof -
  have "status_extract repeated_header_page = Inr ([], [''Visit'', ''Visit''])"
    by code_simp
  then have "get_observation_status (serve_at_once repeated_header_page) ''1234'' 3
     = (Inr ([], [''Visit'', ''Visit'']), 1)"
    using get_observation_status_stops [of 0 "serve_at_once repeated_header_page" "''1234''" 3]
    by (simp add: serve_at_once_def status_try_def ok_response_def)
  moreover have "tables repeated_header_page
      = [[data_row [''Visit'', ''Visit''], data_row [''1:1'', ''1:2'']]]"
    by (simp add: repeated_header_page_def)
  ultimately show ?thesis by simp
qed

section \<open>A successful fetch ends the function\<close>

lemma status_extract_no_tables: "tables soup = [] \<Longrightarrow> status_extract soup = Inr ([], [])"
  by (simp add: status_extract_def)

lemma status_extract_returns:
  "[] \<notin> set (tables soup) \<Longrightarrow> \<exists>result. status_extract soup = Inr result"
  by (simp add: status_extract_closed)

text \<open>
  Claim C6 says that once a call of \<^verbatim>\<open>session.get\<close> succeeds the function returns,
  with no further call, whatever the page holds. No further call is made
  (\<open>get_observation_status_stops\<close>), and a page without tables gives two empty lists
  (\<open>status_extract_no_tables\<close>). But the function does not return on every page: a
  table without rows makes \<^verbatim>\<open>rows[0]\<close> raise IndexError, which the retry loop does
  not catch. On \<open>rowless_table_page\<close> the function raises after its first call, where
  \<open>extract_basic_info_from_GTO\<close>, which skips tables without rows, returns.
\<close>

theorem rowless_table_raises_after_fetch:
  "tables rowless_table_page = [[]] \<and>
   get_observation_status (serve_at_once rowless_table_page) ''1234'' 3 = (Inl IndexError, 1) \<and>
   extract_basic_info_from_GTO (serve rowless_table_page) ''u'' = Inr ([], None)"
proof -
  have "status_extract rowless_table_page = Inl IndexError"
    by code_simp
  then have "get_observation_status (serve_at_once rowless_table_page) ''1234'' 3
     = (Inl IndexError, 1)"
    using get_observation_status_stops [of 0 "serve_at_once rowless_table_page" "''1234''" 3]
    by (simp add: serve_at_once_def status_try_def ok_response_def)
  moreover have "extract_basic_info_from_GTO (serve rowless_table_page) ''u'' = Inr ([], None)"
    by code_simp
  moreover have "tables rowless_table_page = [[]]"
    by (simp add: rowless_table_page_def)
  ultimately show ?thesis by simp
qed

section \<open>Python sets\<close>

lemma py_in_iff: "py_in x s \<longleftrightarrow> (\<exists>y\<in>set s. py_same x y)"
  by (simp add: py_in_def list_ex_iff)



lemma py_same_sym: "py_same x y \<Longrightarrow> py_same y x"
  by (simp add: py_same_def)


lemma py_in_cong: "py_same x y \<Longrightarrow> py_in x s = py_in y s"
  by (auto simp: py_in_iff py_same_def)













section \<open>The reconciliation report\<close>




end
